theory Spec2Isabelle
  imports Main
begin

section \<open>Python values\<close>

text \<open>
  The tools of \<open>main.py\<close> receive parsed JSON from \<open>response.json()\<close> and return dicts,
  lists and strings.  One datatype holds all of them: a dict is an association list in
  insertion order, looked up with \<open>map_of\<close> (the keys of a Python dict are distinct; no
  property below depends on it), a \<open>str\<close> is the list of the bytes of its UTF-8 encoding
  (the substring test \<open>in\<close> is the same on code points and on UTF-8 bytes), an \<open>int\<close> is
  unbounded.  A float is kept as mantissa and binary exponent, or as one of the
  special values \<open>json.loads\<close> accepts; the tools only test it for zero.
\<close>

datatype pyfloat = Finite int int | Infinity bool | NaN

datatype json =
    JNull
  | JBool bool
  | JInt int
  | JFloat pyfloat
  | JString string
  | JArray "json list"
  | JObject "(string \<times> json) list"

text \<open>Every exception of the program is an \<open>Exception\<close>; \<open>str(e)\<close> is its message.
  \<open>HTTPError\<close> stands for whatever \<open>httpx\<close> raises while sending a request.\<close>

datatype exn =
    AttributeError string
  | TypeError string
  | JSONDecodeError string
  | HTTPError string

fun exn_str :: "exn \<Rightarrow> string" where
  "exn_str (AttributeError m) = m"
| "exn_str (TypeError m) = m"
| "exn_str (JSONDecodeError m) = m"
| "exn_str (HTTPError m) = m"

text \<open>Truth value of a Python object, as \<open>if not results\<close> and \<open>if not filename\<close> test it.\<close>

fun truthy :: "json \<Rightarrow> bool" where
  "truthy JNull = False"
| "truthy (JBool b) = b"
| "truthy (JInt n) = (n \<noteq> 0)"
| "truthy (JFloat (Finite m e)) = (m \<noteq> 0)"
| "truthy (JFloat (Infinity s)) = True"
| "truthy (JFloat NaN) = True"
| "truthy (JString s) = (s \<noteq> [])"
| "truthy (JArray xs) = (xs \<noteq> [])"
| "truthy (JObject kvs) = (kvs \<noteq> [])"

fun type_name :: "json \<Rightarrow> string" where
  "type_name JNull = ''NoneType''"
| "type_name (JBool b) = ''bool''"
| "type_name (JInt n) = ''int''"
| "type_name (JFloat f) = ''float''"
| "type_name (JString s) = ''str''"
| "type_name (JArray xs) = ''list''"
| "type_name (JObject kvs) = ''dict''"

text \<open>The single quote, which a string literal of HOL cannot hold.\<close>

abbreviation sq :: string where
  "sq \<equiv> [CHR 0x27]"

text \<open>\<open>obj.get(key, default)\<close>: only a dict has the method.\<close>

fun py_get :: "json \<Rightarrow> string \<Rightarrow> json \<Rightarrow> exn + json" where
  "py_get (JObject kvs) k d = Inr (case map_of kvs k of None \<Rightarrow> d | Some v \<Rightarrow> v)"
| "py_get v k d =
     Inl (AttributeError (sq @ type_name v @ sq @ '' object has no attribute '' @ sq @ ''get'' @ sq))"

text \<open>\<open>for item in results\<close>: a list gives its elements, a dict its keys, a string its
  characters; nothing else is iterable.\<close>

fun py_iter :: "json \<Rightarrow> exn + json list" where
  "py_iter (JArray xs) = Inr xs"
| "py_iter (JObject kvs) = Inr (map (\<lambda>kv. JString (fst kv)) kvs)"
| "py_iter (JString s) = Inr (map (\<lambda>c. JString [c]) s)"
| "py_iter v = Inl (TypeError (sq @ type_name v @ sq @ '' object is not iterable''))"

subsection \<open>Strings\<close>

text \<open>\<open>s.startswith(kw)\<close>\<close>

definition starts_with :: "string \<Rightarrow> string \<Rightarrow> bool" where
  "starts_with s kw = (take (length kw) s = kw)"

text \<open>\<open>kw in s\<close> on strings: \<open>kw\<close> occurs in \<open>s\<close> as a contiguous substring.\<close>

fun contains :: "string \<Rightarrow> string \<Rightarrow> bool" where
  "contains kw [] = (kw = [])"
| "contains kw (y # ys) = (starts_with (y # ys) kw \<or> contains kw ys)"

definition digit_char :: "nat \<Rightarrow> char" where
  "digit_char d = char_of (48 + d)"

function str_nat :: "nat \<Rightarrow> string" where
  "str_nat n = (if n < 10 then [digit_char n] else str_nat (n div 10) @ [digit_char (n mod 10)])"
  by pat_completeness auto
termination
  by (relation "measure id") auto

text \<open>\<open>str(n)\<close> of a Python int, as an f-string formats a status code.\<close>

definition str_int :: "int \<Rightarrow> string" where
  "str_int i = (if i < 0 then CHR ''-'' # str_nat (nat (- i)) else str_nat (nat i))"

text \<open>An f-string field holding an environment variable: \<open>os.getenv\<close> gives \<open>None\<close> when the
  variable is unset, and the f-string prints it as \<open>None\<close>.\<close>

fun fmt_opt :: "string option \<Rightarrow> string" where
  "fmt_opt None = ''None''"
| "fmt_opt (Some s) = s"

section \<open>HTTP and the environment of a tool call\<close>

datatype http_method = GET | POST | PUT

record request =
  req_method :: http_method
  req_url :: string
  req_headers :: "(string \<times> string) list"
  req_params :: "(string \<times> string) list"
  req_data :: "string option"
  req_timeout :: nat

text \<open>What the tools read of an \<open>httpx.Response\<close>: \<open>body_text\<close> is \<open>response.text\<close>,
  \<open>json_body\<close> the outcome of \<open>response.json()\<close>, which raises on a body that is not JSON,
  \<open>resp_url\<close> is \<open>response.url\<close>.\<close>

record response =
  status_code :: int
  body_text :: string
  json_body :: "exn + json"
  resp_url :: string

text \<open>What a tool call does besides returning: the requests it sends, the lines it logs
  with loguru, the errors it reports to the MCP context, what it prints.\<close>

datatype event =
    Http request
  | LogError string
  | LogWarning string
  | LogDebug string
  | CtxError string
  | Print string

text \<open>
  The module's globals and everything outside the program.  \<open>remote\<close> is the two HTTP
  services seen through \<open>httpx\<close>: in a state of the world \<open>'w\<close> a request is answered by a
  response or raises (connection refused, timeout, unsupported URL), and the world moves
  on.  \<open>py_str\<close> is Python's \<open>str()\<close> on a parsed JSON value and \<open>json_dumps\<close> is
  \<open>json.dumps(_, ensure_ascii=False, indent=2)\<close>; neither raises on parsed JSON.
  Logging and \<open>ctx.error\<close> are taken to return normally.
\<close>

record 'w env =
  API_KEY :: "string option"
  BASE_URL_REST_LOCAL :: "string option"
  BASE_URL_OMNI_SEARCH :: "string option"
  remote :: "'w \<Rightarrow> request \<Rightarrow> (exn + response) \<times> 'w"
  py_str :: "json \<Rightarrow> string"
  json_dumps :: "json \<Rightarrow> string"

text \<open>An f-string field holding a parsed JSON value: a \<open>str\<close> prints as itself.\<close>

definition fmt :: "'w env \<Rightarrow> json \<Rightarrow> string" where
  "fmt env v = (case v of JString s \<Rightarrow> s | _ \<Rightarrow> py_str env v)"

definition bearer :: "'w env \<Rightarrow> string \<times> string" where
  "bearer env = (''Authorization'', ''Bearer '' @ fmt_opt (API_KEY env))"

definition error_dict :: "string \<Rightarrow> json" where
  "error_dict msg = JObject [(''error'', JString msg)]"

definition message_dict :: "string \<Rightarrow> json" where
  "message_dict msg = JObject [(''message'', JString msg)]"

text \<open>\<open>logger.error(error_msg); await ctx.error(error_msg)\<close>\<close>

definition report :: "string \<Rightarrow> event list" where
  "report msg = [LogError msg, CtxError msg]"

text \<open>
  \<open>try: ... except Exception as e:\<close> around a tool's body.  The body either returns a
  value or raises; the handler builds the message from \<open>prefix\<close> and \<open>str(e)\<close>, reports it
  and returns it wrapped the way the tool wraps its failures.
\<close>

definition catch ::
  "(string \<Rightarrow> json) \<Rightarrow> string \<Rightarrow> (exn + json) \<times> event list \<times> 'w \<Rightarrow> json \<times> event list \<times> 'w" where
  "catch wrap prefix run =
     (case run of
        (Inr v, evs, w) \<Rightarrow> (v, evs, w)
      | (Inl e, evs, w) \<Rightarrow>
          (let error_msg = prefix @ exn_str e
           in (wrap error_msg, evs @ report error_msg, w)))"

section \<open>The single-call tools\<close>

subsection \<open>\<open>get_status\<close>\<close>

definition get_status_request :: "'w env \<Rightarrow> request" where
  "get_status_request env =
     \<lparr>req_method = GET,
      req_url = fmt_opt (BASE_URL_REST_LOCAL env),
      req_headers = [bearer env],
      req_params = [],
      req_data = None,
      req_timeout = 10\<rparr>"

definition get_status_body :: "'w env \<Rightarrow> 'w \<Rightarrow> (exn + json) \<times> event list \<times> 'w" where
  "get_status_body env w =
     (let req = get_status_request env in
      case remote env w req of
        (Inl e, w1) \<Rightarrow> (Inl e, [Http req], w1)
      | (Inr response, w1) \<Rightarrow>
          if status_code response \<noteq> 200 then
            (let error_msg = ''Error: Received status code '' @ str_int (status_code response)
                   @ '' from Obsidian API.''
             in (Inr (error_dict error_msg), Http req # report error_msg, w1))
          else
            (case json_body response of
               Inl e \<Rightarrow> (Inl e, [Http req], w1)
             | Inr j \<Rightarrow> (Inr (JString (json_dumps env j)), [Http req], w1)))"

definition get_status :: "'w env \<Rightarrow> 'w \<Rightarrow> json \<times> event list \<times> 'w" where
  "get_status env w = catch error_dict ''Failed to get status: '' (get_status_body env w)"

subsection \<open>\<open>omni_search\<close>\<close>

definition omni_search_request :: "'w env \<Rightarrow> string \<Rightarrow> request" where
  "omni_search_request env q =
     \<lparr>req_method = GET,
      req_url = fmt_opt (BASE_URL_OMNI_SEARCH env) @ ''/search'',
      req_headers = [],
      req_params = [(''q'', q)],
      req_data = None,
      req_timeout = 10\<rparr>"

definition omni_error :: "string \<Rightarrow> json" where
  "omni_error msg = JArray [error_dict msg]"

definition omni_search_body ::
  "'w env \<Rightarrow> string \<Rightarrow> 'w \<Rightarrow> (exn + json) \<times> event list \<times> 'w" where
  "omni_search_body env q w =
     (let req = omni_search_request env q in
      case remote env w req of
        (Inl e, w1) \<Rightarrow> (Inl e, [Http req], w1)
      | (Inr response, w1) \<Rightarrow>
          (let seen = [Http req, Print (resp_url response)] in
           if status_code response \<noteq> 200 then
             (let error_msg = ''Error: Received status code '' @ str_int (status_code response)
                    @ '' from Omni Search.''
              in (Inr (omni_error error_msg), seen @ report error_msg, w1))
           else
             (case json_body response of
                Inl e \<Rightarrow> (Inl e, seen, w1)
              | Inr j \<Rightarrow> (Inr (JString (json_dumps env j)), seen, w1))))"

definition omni_search :: "'w env \<Rightarrow> string \<Rightarrow> 'w \<Rightarrow> json \<times> event list \<times> 'w" where
  "omni_search env q w =
     catch omni_error ''Failed to perform Omni Search: '' (omni_search_body env q w)"

subsection \<open>\<open>get_active_note\<close>\<close>

definition note_json :: string where
  "note_json = ''application/vnd.olrapi.note+json''"

definition get_active_note_request :: "'w env \<Rightarrow> bool \<Rightarrow> request" where
  "get_active_note_request env as_json =
     \<lparr>req_method = GET,
      req_url = fmt_opt (BASE_URL_REST_LOCAL env) @ ''/active'',
      req_headers = bearer env # (if as_json then [(''Accept'', note_json)] else []),
      req_params = [],
      req_data = None,
      req_timeout = 10\<rparr>"

definition get_active_note_body ::
  "'w env \<Rightarrow> bool \<Rightarrow> 'w \<Rightarrow> (exn + json) \<times> event list \<times> 'w" where
  "get_active_note_body env as_json w =
     (let req = get_active_note_request env as_json in
      case remote env w req of
        (Inl e, w1) \<Rightarrow> (Inl e, [Http req], w1)
      | (Inr response, w1) \<Rightarrow>
          if status_code response \<noteq> 200 then
            (let error_msg = ''Error: Received status code '' @ str_int (status_code response)
                   @ '' when retrieving active note.''
             in (Inr (error_dict error_msg), Http req # report error_msg, w1))
          else if as_json then
            (case json_body response of
               Inl e \<Rightarrow> (Inl e, [Http req], w1)
             | Inr j \<Rightarrow> (Inr j, [Http req], w1))
          else (Inr (JString (body_text response)), [Http req], w1))"

definition get_active_note :: "'w env \<Rightarrow> bool \<Rightarrow> 'w \<Rightarrow> json \<times> event list \<times> 'w" where
  "get_active_note env as_json w =
     catch error_dict ''Failed to retrieve active note: '' (get_active_note_body env as_json w)"

subsection \<open>\<open>get_file\<close>\<close>

definition vault_url :: "'w env \<Rightarrow> string \<Rightarrow> string" where
  "vault_url env filename = fmt_opt (BASE_URL_REST_LOCAL env) @ ''/vault/'' @ filename"

definition accept :: "bool \<Rightarrow> string \<times> string" where
  "accept as_json = (''Accept'', if as_json then note_json else ''text/markdown'')"

definition get_file_request :: "'w env \<Rightarrow> string \<Rightarrow> bool \<Rightarrow> request" where
  "get_file_request env filename as_json =
     \<lparr>req_method = GET,
      req_url = vault_url env filename,
      req_headers = [bearer env, accept as_json],
      req_params = [],
      req_data = None,
      req_timeout = 10\<rparr>"

definition get_file_body ::
  "'w env \<Rightarrow> string \<Rightarrow> bool \<Rightarrow> 'w \<Rightarrow> (exn + json) \<times> event list \<times> 'w" where
  "get_file_body env filename as_json w =
     (let req = get_file_request env filename as_json in
      case remote env w req of
        (Inl e, w1) \<Rightarrow> (Inl e, [Http req], w1)
      | (Inr response, w1) \<Rightarrow>
          if status_code response \<noteq> 200 then
            (let error_msg = ''Error: Received status code '' @ str_int (status_code response)
                   @ '' when retrieving file.'' @ [CHR 0x0A] @ '' url: '' @ vault_url env filename
             in (Inr (error_dict error_msg), Http req # report error_msg, w1))
          else if as_json then
            (case json_body response of
               Inl e \<Rightarrow> (Inl e, [Http req], w1)
             | Inr j \<Rightarrow> (Inr j, [Http req], w1))
          else (Inr (JString (body_text response)), [Http req], w1))"

definition get_file :: "'w env \<Rightarrow> string \<Rightarrow> bool \<Rightarrow> 'w \<Rightarrow> json \<times> event list \<times> 'w" where
  "get_file env filename as_json w =
     (case catch error_dict (''Failed to retrieve file '' @ sq @ filename @ sq @ '': '')
             (get_file_body env filename as_json w) of
        (v, evs, w1) \<Rightarrow> (v, LogDebug (''Retrieving file from URL: '' @ vault_url env filename) # evs, w1))"

subsection \<open>\<open>update_file\<close>\<close>

definition update_file_request :: "'w env \<Rightarrow> string \<Rightarrow> string \<Rightarrow> request" where
  "update_file_request env filename content =
     \<lparr>req_method = PUT,
      req_url = vault_url env filename,
      req_headers = [bearer env, (''Content-Type'', ''text/markdown'')],
      req_params = [],
      req_data = Some content,
      req_timeout = 10\<rparr>"

definition updated_msg :: "string \<Rightarrow> string" where
  "updated_msg filename = ''File '' @ sq @ filename @ sq @ '' updated successfully.''"

definition update_file_body ::
  "'w env \<Rightarrow> string \<Rightarrow> string \<Rightarrow> 'w \<Rightarrow> (exn + json) \<times> event list \<times> 'w" where
  "update_file_body env filename content w =
     (let req = update_file_request env filename content in
      case remote env w req of
        (Inl e, w1) \<Rightarrow> (Inl e, [Http req], w1)
      | (Inr response, w1) \<Rightarrow>
          if status_code response \<notin> {200, 204} then
            (let error_msg = ''Error: Received status code '' @ str_int (status_code response)
                   @ '' when updating file.''
             in (Inr (JString error_msg), Http req # report error_msg, w1))
          else (Inr (JString (updated_msg filename)), [Http req], w1))"

definition update_file :: "'w env \<Rightarrow> string \<Rightarrow> string \<Rightarrow> 'w \<Rightarrow> json \<times> event list \<times> 'w" where
  "update_file env filename content w =
     catch JString (''Failed to update file '' @ sq @ filename @ sq @ '': '')
       (update_file_body env filename content w)"

section \<open>The composite workflow \<open>search_and_find_matching_file\<close>\<close>

text \<open>The Japanese messages of the source, as the bytes of their UTF-8 encoding.\<close>

definition ja_error :: string where
  "ja_error = [CHR 0xE3, CHR 0x82, CHR 0xA8, CHR 0xE3, CHR 0x83, CHR 0xA9, CHR 0xE3, CHR 0x83, CHR 0xBC]"

definition no_results_msg :: string where
  "no_results_msg = [CHR 0xE6, CHR 0xA4, CHR 0x9C, CHR 0xE7, CHR 0xB4, CHR 0xA2, CHR 0xE7, CHR 0xB5, CHR 0x90,
      CHR 0xE6, CHR 0x9E, CHR 0x9C, CHR 0xE3, CHR 0x81, CHR 0x8C, CHR 0xE3, CHR 0x81, CHR 0x82,
      CHR 0xE3, CHR 0x82, CHR 0x8A, CHR 0xE3, CHR 0x81, CHR 0xBE, CHR 0xE3, CHR 0x81, CHR 0x9B,
      CHR 0xE3, CHR 0x82, CHR 0x93, CHR 0xE3, CHR 0x81, CHR 0xA7, CHR 0xE3, CHR 0x81, CHR 0x97,
      CHR 0xE3, CHR 0x81, CHR 0x9F, CHR 0xE3, CHR 0x80, CHR 0x82]"

definition ja_specified_keyword :: string where
  "ja_specified_keyword = [CHR 0xE6, CHR 0x8C, CHR 0x87, CHR 0xE5, CHR 0xAE, CHR 0x9A, CHR 0xE3, CHR 0x81, CHR 0x95,
      CHR 0xE3, CHR 0x82, CHR 0x8C, CHR 0xE3, CHR 0x81, CHR 0x9F, CHR 0xE3, CHR 0x82, CHR 0xAD,
      CHR 0xE3, CHR 0x83, CHR 0xBC, CHR 0xE3, CHR 0x83, CHR 0xAF, CHR 0xE3, CHR 0x83, CHR 0xBC,
      CHR 0xE3, CHR 0x83, CHR 0x89]"

definition ja_not_found :: string where
  "ja_not_found = [CHR 0xE3, CHR 0x82, CHR 0x92, CHR 0xE5, CHR 0x90, CHR 0xAB, CHR 0xE3, CHR 0x82, CHR 0x80,
      CHR 0xE3, CHR 0x83, CHR 0x95, CHR 0xE3, CHR 0x82, CHR 0xA1, CHR 0xE3, CHR 0x82, CHR 0xA4,
      CHR 0xE3, CHR 0x83, CHR 0xAB, CHR 0xE3, CHR 0x81, CHR 0xAF, CHR 0xE8, CHR 0xA6, CHR 0x8B,
      CHR 0xE3, CHR 0x81, CHR 0xA4, CHR 0xE3, CHR 0x81, CHR 0x8B, CHR 0xE3, CHR 0x82, CHR 0x8A,
      CHR 0xE3, CHR 0x81, CHR 0xBE, CHR 0xE3, CHR 0x81, CHR 0x9B, CHR 0xE3, CHR 0x82, CHR 0x93,
      CHR 0xE3, CHR 0x81, CHR 0xA7, CHR 0xE3, CHR 0x81, CHR 0x97, CHR 0xE3, CHR 0x81, CHR 0x9F,
      CHR 0xE3, CHR 0x80, CHR 0x82]"

definition ja_fetch_failed :: string where
  "ja_fetch_failed = [CHR 0xE3, CHR 0x83, CHR 0x95, CHR 0xE3, CHR 0x82, CHR 0xA1, CHR 0xE3, CHR 0x82, CHR 0xA4,
      CHR 0xE3, CHR 0x83, CHR 0xAB, CHR 0xE5, CHR 0x8F, CHR 0x96, CHR 0xE5, CHR 0xBE, CHR 0x97,
      CHR 0xE5, CHR 0xA4, CHR 0xB1, CHR 0xE6, CHR 0x95, CHR 0x97]"

definition no_match_msg :: "string \<Rightarrow> string" where
  "no_match_msg match_keyword =
     ja_specified_keyword @ '' '' @ sq @ match_keyword @ sq @ '' '' @ ja_not_found"

definition search_request :: "'w env \<Rightarrow> string \<Rightarrow> string \<Rightarrow> request" where
  "search_request env query content_type =
     \<lparr>req_method = POST,
      req_url = fmt_opt (BASE_URL_REST_LOCAL env) @ ''/search'',
      req_headers = [bearer env, (''Content-Type'', content_type)],
      req_params = [],
      req_data = Some query,
      req_timeout = 10\<rparr>"

text \<open>The request for one candidate; \<open>filename\<close> is whatever JSON value stood under
  \<open>file.path\<close>, printed into the URL by the f-string.\<close>

definition file_request :: "'w env \<Rightarrow> json \<Rightarrow> bool \<Rightarrow> request" where
  "file_request env filename as_json =
     \<lparr>req_method = GET,
      req_url = vault_url env (fmt env filename),
      req_headers = [bearer env, accept as_json],
      req_params = [],
      req_data = None,
      req_timeout = 10\<rparr>"

text \<open>\<open>item.get("file", {}).get("path")\<close>\<close>

definition item_path :: "json \<Rightarrow> exn + json" where
  "item_path item =
     (case py_get item ''file'' (JObject []) of
        Inl e \<Rightarrow> Inl e
      | Inr f \<Rightarrow> py_get f ''path'' JNull)"

text \<open>\<open>content = file_response.json() if as_json else file_response.text\<close>\<close>

definition content_of :: "bool \<Rightarrow> response \<Rightarrow> exn + json" where
  "content_of as_json file_response =
     (if as_json then json_body file_response else Inr (JString (body_text file_response)))"

text \<open>\<open>str(content) if as_json else content\<close>, the text the keyword is looked for in.\<close>

definition haystack :: "'w env \<Rightarrow> bool \<Rightarrow> json \<Rightarrow> string" where
  "haystack env as_json content = (if as_json then py_str env content else fmt env content)"

definition match_dict :: "json \<Rightarrow> json \<Rightarrow> json" where
  "match_dict filename content = JObject [(''filename'', filename), (''content'', content)]"

text \<open>How one pass through the loop body ends: it falls through or \<open>continue\<close>s, it
  \<open>return\<close>s a value, or it raises.\<close>

datatype step = Continue | Return json | Raise exn

definition visit ::
  "'w env \<Rightarrow> string \<Rightarrow> bool \<Rightarrow> json \<Rightarrow> 'w \<Rightarrow> step \<times> event list \<times> 'w" where
  "visit env match_keyword as_json item w =
     (case item_path item of
        Inl e \<Rightarrow> (Raise e, [], w)
      | Inr filename \<Rightarrow>
          if \<not> truthy filename then (Continue, [], w)
          else
            (let req = file_request env filename as_json in
             case remote env w req of
               (Inl e, w1) \<Rightarrow> (Raise e, [Http req], w1)
             | (Inr file_response, w1) \<Rightarrow>
                 if status_code file_response \<noteq> 200 then
                   (Continue,
                    [Http req, LogWarning (ja_fetch_failed @ '': '' @ fmt env filename)], w1)
                 else
                   (case content_of as_json file_response of
                      Inl e \<Rightarrow> (Raise e, [Http req], w1)
                    | Inr content \<Rightarrow>
                        if contains match_keyword (haystack env as_json content)
                        then (Return (match_dict filename content), [Http req], w1)
                        else (Continue, [Http req], w1))))"

text \<open>\<open>for item in results:\<close> over the items that are left.\<close>

fun scan ::
  "'w env \<Rightarrow> string \<Rightarrow> bool \<Rightarrow> json list \<Rightarrow> 'w \<Rightarrow> step \<times> event list \<times> 'w" where
  "scan env match_keyword as_json [] w = (Continue, [], w)"
| "scan env match_keyword as_json (item # rest) w =
     (case visit env match_keyword as_json item w of
        (Continue, evs, w1) \<Rightarrow>
          (case scan env match_keyword as_json rest w1 of
             (s, evs', w2) \<Rightarrow> (s, evs @ evs', w2))
      | (Return v, evs, w1) \<Rightarrow> (Return v, evs, w1)
      | (Raise e, evs, w1) \<Rightarrow> (Raise e, evs, w1))"

definition search_and_find_body ::
  "'w env \<Rightarrow> string \<Rightarrow> string \<Rightarrow> string \<Rightarrow> bool \<Rightarrow> 'w \<Rightarrow> (exn + json) \<times> event list \<times> 'w" where
  "search_and_find_body env query match_keyword content_type as_json w =
     (let req = search_request env query content_type in
      case remote env w req of
        (Inl e, w1) \<Rightarrow> (Inl e, [Http req], w1)
      | (Inr search_response, w1) \<Rightarrow>
          if status_code search_response \<noteq> 200 then
            (let error_msg = ''Search error: status code '' @ str_int (status_code search_response)
             in (Inr (error_dict error_msg), Http req # report error_msg, w1))
          else
            (case json_body search_response of
               Inl e \<Rightarrow> (Inl e, [Http req], w1)
             | Inr results \<Rightarrow>
                 if \<not> truthy results then (Inr (message_dict no_results_msg), [Http req], w1)
                 else
                   (case py_iter results of
                      Inl e \<Rightarrow> (Inl e, [Http req], w1)
                    | Inr items \<Rightarrow>
                        (case scan env match_keyword as_json items w1 of
                           (Continue, evs, w2) \<Rightarrow>
                             (Inr (message_dict (no_match_msg match_keyword)), Http req # evs, w2)
                         | (Return v, evs, w2) \<Rightarrow> (Inr v, Http req # evs, w2)
                         | (Raise e, evs, w2) \<Rightarrow> (Inl e, Http req # evs, w2)))))"

definition search_and_find_matching_file ::
  "'w env \<Rightarrow> string \<Rightarrow> string \<Rightarrow> string \<Rightarrow> bool \<Rightarrow> 'w \<Rightarrow> json \<times> event list \<times> 'w" where
  "search_and_find_matching_file env query match_keyword content_type as_json w =
     catch error_dict (''search_and_find_matching_file '' @ ja_error @ '': '')
       (search_and_find_body env query match_keyword content_type as_json w)"

section \<open>Notions the properties are stated with\<close>

text \<open>The requests among the events of a call, in the order they were sent.\<close>

definition requests_of :: "event list \<Rightarrow> request list" where
  "requests_of evs = concat (map (\<lambda>ev. case ev of Http req \<Rightarrow> [req] | _ \<Rightarrow> []) evs)"

text \<open>The paths the scan fetches for a list of candidates: those \<open>item_path\<close> finds and
  \<open>if not filename\<close> lets through, in the order of the candidates.\<close>

definition paths_of :: "json list \<Rightarrow> json list" where
  "paths_of items =
     concat (map (\<lambda>item. case item_path item of
                            Inr p \<Rightarrow> if truthy p then [p] else []
                          | Inl e \<Rightarrow> []) items)"

text \<open>
  A candidate the scan passes over when it reaches it in the world \<open>w\<close>: it carries no
  path, or its fetch is answered with a status other than 200, or it is answered with
  content that does not contain the keyword.  A candidate whose lookup, fetch or decoding
  raises is not passed over.
\<close>

definition passed_over :: "'w env \<Rightarrow> string \<Rightarrow> bool \<Rightarrow> json \<Rightarrow> 'w \<Rightarrow> bool" where
  "passed_over env match_keyword as_json item w =
     (case item_path item of
        Inl e \<Rightarrow> False
      | Inr p \<Rightarrow>
          \<not> truthy p \<or>
          (case fst (remote env w (file_request env p as_json)) of
             Inl e \<Rightarrow> False
           | Inr r \<Rightarrow>
               status_code r \<noteq> 200 \<or>
               (case content_of as_json r of
                  Inl e \<Rightarrow> False
                | Inr content \<Rightarrow> \<not> contains match_keyword (haystack env as_json content))))"

text \<open>The world after a candidate: unchanged when the candidate has no path, otherwise
  the world the remote service leaves behind after the fetch.\<close>

definition next_world :: "'w env \<Rightarrow> bool \<Rightarrow> json \<Rightarrow> 'w \<Rightarrow> 'w" where
  "next_world env as_json item w =
     (case item_path item of
        Inl e \<Rightarrow> w
      | Inr p \<Rightarrow> if \<not> truthy p then w else snd (remote env w (file_request env p as_json)))"

text \<open>The world after a list of candidates, each fetched in the world the one before it
  left behind; and the candidates of a list all passed over, each in the world it is
  reached in.\<close>

fun world_after :: "'w env \<Rightarrow> bool \<Rightarrow> json list \<Rightarrow> 'w \<Rightarrow> 'w" where
  "world_after env as_json [] w = w"
| "world_after env as_json (item # rest) w =
     world_after env as_json rest (next_world env as_json item w)"

fun all_passed_over :: "'w env \<Rightarrow> string \<Rightarrow> bool \<Rightarrow> json list \<Rightarrow> 'w \<Rightarrow> bool" where
  "all_passed_over env match_keyword as_json [] w = True"
| "all_passed_over env match_keyword as_json (item # rest) w =
     (passed_over env match_keyword as_json item w
      \<and> all_passed_over env match_keyword as_json rest (next_world env as_json item w))"

text \<open>The keys of a returned dict, in order; \<open>None\<close> for a value that is not a dict.\<close>

fun dict_keys :: "json \<Rightarrow> string list option" where
  "dict_keys (JObject kvs) = Some (map fst kvs)"
| "dict_keys v = None"

text \<open>
  A candidate without a file path: a JSON object with no \<open>file\<close> member, or one whose
  \<open>file\<close> member is an object with no \<open>path\<close> member or with a \<open>path\<close> that Python
  takes for false (\<open>null\<close>, the empty string, \<open>0\<close>, an empty list or object).
\<close>

fun path_absent :: "json \<Rightarrow> bool" where
  "path_absent (JObject kvs) =
     (case map_of kvs ''file'' of
        None \<Rightarrow> True
      | Some (JObject f) \<Rightarrow> (case map_of f ''path'' of None \<Rightarrow> True | Some p \<Rightarrow> \<not> truthy p)
      | Some _ \<Rightarrow> False)"
| "path_absent _ = False"

text \<open>A request that carries the bearer token of the note API.\<close>

definition authorized :: "'w env \<Rightarrow> request \<Rightarrow> bool" where
  "authorized env req =
     (map_of (req_headers req) ''Authorization'' = Some (''Bearer '' @ fmt_opt (API_KEY env)))"

text \<open>A request addressed to the note API, and one that is both addressed to it and
  carries its token.\<close>

definition to_note_api :: "'w env \<Rightarrow> request \<Rightarrow> bool" where
  "to_note_api env req = starts_with (req_url req) (fmt_opt (BASE_URL_REST_LOCAL env))"

definition note_api_call :: "'w env \<Rightarrow> request \<Rightarrow> bool" where
  "note_api_call env req = (to_note_api env req \<and> authorized env req)"

section \<open>A small vault to run the tools against\<close>

text \<open>
  A note API on port 27123 with one note \<open>b.md\<close>, whose front matter holds a title; the
  note \<open>down.md\<close> times out and every other path is answered with 404.  The search
  endpoint knows four queries.  The world is the number of requests served so far.
\<close>

definition dql :: string where
  "dql = ''application/vnd.olrapi.dataview.dql+txt''"

definition demo_item :: "string \<Rightarrow> json" where
  "demo_item path = JObject [(''file'', JObject [(''path'', JString path)])]"

definition demo_markdown :: string where
  "demo_markdown = ''---'' @ [CHR 0x0A] @ ''title: Greeting'' @ [CHR 0x0A] @ ''---''
     @ [CHR 0x0A] @ ''# Hello''"

definition demo_note :: json where
  "demo_note =
     JObject [(''content'', JString demo_markdown),
              (''frontmatter'', JObject [(''title'', JString ''Greeting'')]),
              (''path'', JString ''b.md'')]"

text \<open>\<open>str()\<close> of the note above, the one value the runs below print.\<close>

definition demo_note_str :: string where
  "demo_note_str =
     ''{'' @ sq @ ''content'' @ sq @ '': '' @ sq @ ''---'' @ [CHR 0x5C] @ ''ntitle: Greeting''
     @ [CHR 0x5C] @ ''n---'' @ [CHR 0x5C] @ ''n# Hello'' @ sq
     @ '', '' @ sq @ ''frontmatter'' @ sq @ '': {'' @ sq @ ''title'' @ sq @ '': '' @ sq @ ''Greeting'' @ sq
     @ ''}, '' @ sq @ ''path'' @ sq @ '': '' @ sq @ ''b.md'' @ sq @ ''}''"

definition demo_str :: "json \<Rightarrow> string" where
  "demo_str v = (if v = demo_note then demo_note_str else [])"

definition text_response :: "int \<Rightarrow> string \<Rightarrow> request \<Rightarrow> response" where
  "text_response st body req =
     \<lparr>status_code = st, body_text = body,
      json_body = Inl (JSONDecodeError ''Expecting value: line 1 column 1 (char 0)''),
      resp_url = req_url req\<rparr>"

definition json_response :: "int \<Rightarrow> json \<Rightarrow> request \<Rightarrow> response" where
  "json_response st j req =
     \<lparr>status_code = st, body_text = [], json_body = Inr j, resp_url = req_url req\<rparr>"

definition demo_search :: "string option \<Rightarrow> json" where
  "demo_search query =
     (if query = Some ''LIST FROM #hello'' then JArray [demo_item ''a.md'', demo_item ''b.md'']
      else if query = Some ''LIST FROM #down'' then JArray [demo_item ''down.md'', demo_item ''b.md'']
      else if query = Some ''LIST FROM #odd'' then JArray [JObject [(''file'', JNull)], demo_item ''b.md'']
      else if query = Some ''LIST FROM #bare'' then JArray [JObject [], demo_item ''b.md'']
      else JArray [])"

definition demo_answer :: "request \<Rightarrow> exn + response" where
  "demo_answer req =
     (if req_url req = ''http://127.0.0.1:27123/search'' then
        Inr (json_response 200 (demo_search (req_data req)) req)
      else if req_url req = ''http://127.0.0.1:27123/vault/b.md'' then
        (if req_method req = PUT then Inr (text_response 204 [] req)
         else if map_of (req_headers req) ''Accept'' = Some note_json
         then Inr (json_response 200 demo_note req)
         else Inr (text_response 200 demo_markdown req))
      else if req_url req = ''http://127.0.0.1:27123/vault/down.md'' then
        Inl (HTTPError ''timed out'')
      else Inr (text_response 404 ''Not Found'' req))"

text \<open>The module's globals for a service that answers by \<open>answer\<close>.  No run below reaches
  \<open>json.dumps\<close>, and \<open>str()\<close> is only applied to the note.\<close>

definition serving :: "(request \<Rightarrow> exn + response) \<Rightarrow> nat env" where
  "serving answer =
     \<lparr>API_KEY = Some ''secret'',
      BASE_URL_REST_LOCAL = Some ''http://127.0.0.1:27123'',
      BASE_URL_OMNI_SEARCH = Some ''http://127.0.0.1:51361'',
      remote = (\<lambda>w req. (answer req, Suc w)),
      py_str = demo_str,
      json_dumps = demo_str\<rparr>"

definition demo_env :: "nat env" where
  "demo_env = serving demo_answer"

text \<open>Both services answering 503 to everything, and both unreachable.\<close>

definition down_answer :: "request \<Rightarrow> exn + response" where
  "down_answer req = Inr (text_response 503 ''Service Unavailable'' req)"

definition down_env :: "nat env" where
  "down_env = serving down_answer"

definition offline_answer :: "request \<Rightarrow> exn + response" where
  "offline_answer req = Inl (HTTPError ''All connection attempts failed'')"

definition offline_env :: "nat env" where
  "offline_env = serving offline_answer"

section \<open>Basic facts\<close>

subsection \<open>Substrings\<close>

lemma starts_with_iff: "starts_with s kw \<longleftrightarrow> (\<exists>zs. s = kw @ zs)"
proof
  assume "starts_with s kw"
  then have "s = kw @ drop (length kw) s"
    by (metis append_take_drop_id starts_with_def)
  then show "\<exists>zs. s = kw @ zs" ..
next
  assume "\<exists>zs. s = kw @ zs"
  then show "starts_with s kw" by (auto simp: starts_with_def)
qed

lemma contains_iff: "contains kw s \<longleftrightarrow> (\<exists>ps ss. s = ps @ kw @ ss)"
proof (induction s)
  case Nil
  then show ?case by auto
next
  case (Cons y ys)
  show ?case
  proof
    assume "contains kw (y # ys)"
    then consider (here) "starts_with (y # ys) kw" | (later) "contains kw ys" by auto
    then show "\<exists>ps ss. y # ys = ps @ kw @ ss"
    proof cases
      case here
      then obtain zs where "y # ys = kw @ zs" by (auto simp: starts_with_iff)
      then have "y # ys = [] @ kw @ zs" by simp
      then show ?thesis by blast
    next
      case later
      then obtain ps ss where "ys = ps @ kw @ ss" using Cons.IH by blast
      then have "y # ys = (y # ps) @ kw @ ss" by simp
      then show ?thesis by blast
    qed
  next
    assume "\<exists>ps ss. y # ys = ps @ kw @ ss"
    then obtain ps ss where eq: "y # ys = ps @ kw @ ss" by blast
    show "contains kw (y # ys)"
    proof (cases ps)
      case Nil
      then have "starts_with (y # ys) kw" using eq by (simp add: starts_with_iff)
      then show ?thesis by simp
    next
      case (Cons p ps')
      then have "ys = ps' @ kw @ ss" using eq by simp
      then have "contains kw ys" using Cons.IH by blast
      then show ?thesis by simp
    qed
  qed
qed

lemma contains_middle: "contains kw (ps @ kw @ ss)"
  by (auto simp: contains_iff)

subsection \<open>Events, handlers and the messages\<close>

lemma requests_of_simps [simp]:
  "requests_of [] = []"
  "requests_of (Http req # evs) = req # requests_of evs"
  "requests_of (LogError m # evs) = requests_of evs"
  "requests_of (LogWarning m # evs) = requests_of evs"
  "requests_of (LogDebug m # evs) = requests_of evs"
  "requests_of (CtxError m # evs) = requests_of evs"
  "requests_of (Print m # evs) = requests_of evs"
  "requests_of (evs @ evs') = requests_of evs @ requests_of evs'"
  by (simp_all add: requests_of_def)

lemma paths_of_simps [simp]:
  "paths_of [] = []"
  "paths_of (item # rest) =
     (case item_path item of Inr p \<Rightarrow> if truthy p then [p] else [] | Inl e \<Rightarrow> []) @ paths_of rest"
  by (simp_all add: paths_of_def)

lemma catch_simps [simp]:
  "catch wrap prefix (Inr v, evs, w) = (v, evs, w)"
  "catch wrap prefix (Inl e, evs, w) =
     (wrap (prefix @ exn_str e), evs @ report (prefix @ exn_str e), w)"
  by (simp_all add: catch_def Let_def)

lemma no_match_contains: "contains kw (no_match_msg kw)"
proof -
  have "no_match_msg kw = (ja_specified_keyword @ '' '' @ sq) @ kw @ (sq @ '' '' @ ja_not_found)"
    by (simp add: no_match_msg_def)
  then show ?thesis using contains_middle by metis
qed

lemma no_results_neq_no_match: "no_results_msg \<noteq> no_match_msg kw"
  by (simp add: no_results_msg_def no_match_msg_def ja_specified_keyword_def)

subsection \<open>The demonstration vault\<close>

lemma serving_simps:
  "API_KEY (serving answer) = Some ''secret''"
  "BASE_URL_REST_LOCAL (serving answer) = Some ''http://127.0.0.1:27123''"
  "BASE_URL_OMNI_SEARCH (serving answer) = Some ''http://127.0.0.1:51361''"
  "remote (serving answer) w req = (answer req, Suc w)"
  "py_str (serving answer) = demo_str"
  "json_dumps (serving answer) = demo_str"
  by (simp_all add: serving_def)

lemma str_int_404: "str_int 404 = ''404''"
  by code_simp

lemma str_int_503: "str_int 503 = ''503''"
  by code_simp

lemmas str_int_examples = str_int_404 str_int_503

lemmas demo_simps = starts_with_def demo_env_def down_env_def offline_env_def serving_simps
  down_answer_def offline_answer_def str_int_examples

lemmas demo_unfold =
  demo_simps demo_answer_def demo_search_def json_response_def text_response_def
  search_request_def file_request_def vault_url_def fmt_def accept_def note_json_def bearer_def
  item_path_def demo_item_def content_of_def haystack_def demo_str_def
  demo_note_def demo_note_str_def demo_markdown_def

subsection \<open>One pass through the loop body\<close>

lemma visit_absent:
  "item_path item = Inr p \<Longrightarrow> \<not> truthy p \<Longrightarrow> visit env kw aj item w = (Continue, [], w)"
  by (simp add: visit_def)

lemma visit_status:
  "item_path item = Inr p \<Longrightarrow> truthy p \<Longrightarrow>
   remote env w (file_request env p aj) = (Inr r, w1) \<Longrightarrow> status_code r \<noteq> 200 \<Longrightarrow>
   visit env kw aj item w =
     (Continue, [Http (file_request env p aj), LogWarning (ja_fetch_failed @ '': '' @ fmt env p)], w1)"
  by (simp add: visit_def)

lemma visit_miss:
  "item_path item = Inr p \<Longrightarrow> truthy p \<Longrightarrow>
   remote env w (file_request env p aj) = (Inr r, w1) \<Longrightarrow> status_code r = 200 \<Longrightarrow>
   content_of aj r = Inr c \<Longrightarrow> \<not> contains kw (haystack env aj c) \<Longrightarrow>
   visit env kw aj item w = (Continue, [Http (file_request env p aj)], w1)"
  by (simp add: visit_def)

lemma visit_hit:
  "item_path item = Inr p \<Longrightarrow> truthy p \<Longrightarrow>
   remote env w (file_request env p aj) = (Inr r, w1) \<Longrightarrow> status_code r = 200 \<Longrightarrow>
   content_of aj r = Inr c \<Longrightarrow> contains kw (haystack env aj c) \<Longrightarrow>
   visit env kw aj item w = (Return (match_dict p c), [Http (file_request env p aj)], w1)"
  by (simp add: visit_def)

lemma visit_passed_over:
  assumes po: "passed_over env kw aj item w"
  shows "\<exists>evs. visit env kw aj item w = (Continue, evs, next_world env aj item w) \<and>
           requests_of evs = map (\<lambda>p. file_request env p aj) (paths_of [item])"
proof -
  from po obtain p where p: "item_path item = Inr p"
    by (auto simp: passed_over_def split: sum.splits)
  show ?thesis
  proof (cases "truthy p")
    case False
    then show ?thesis using p by (simp add: visit_absent next_world_def)
  next
    case True
    obtain a wa where rem: "remote env w (file_request env p aj) = (a, wa)"
      by (cases "remote env w (file_request env p aj)")
    have nw: "next_world env aj item w = wa"
      using p True rem by (simp add: next_world_def)
    from po p True rem obtain r where r: "a = Inr r"
      and rest: "status_code r \<noteq> 200 \<or>
        (\<exists>c. content_of aj r = Inr c \<and> \<not> contains kw (haystack env aj c))"
      by (auto simp: passed_over_def split: sum.splits)
    show ?thesis
    proof (cases "status_code r = 200")
      case False
      then show ?thesis using visit_status[OF p True rem[unfolded r]] p True nw by simp
    next
      case st: True
      with rest obtain c where "content_of aj r = Inr c" "\<not> contains kw (haystack env aj c)"
        by auto
      then show ?thesis using visit_miss[OF p True rem[unfolded r] st] p True nw by simp
    qed
  qed
qed

lemma visit_return_shape:
  "visit env kw aj item w = (Return v, evs, w1) \<Longrightarrow> \<exists>f c. v = match_dict f c"
  by (auto simp: visit_def Let_def split: sum.splits if_splits prod.splits)

subsection \<open>The scan\<close>

lemma scan_all_passed_over:
  "all_passed_over env kw aj items w \<Longrightarrow>
    \<exists>evs. scan env kw aj items w = (Continue, evs, world_after env aj items w) \<and>
           requests_of evs = map (\<lambda>p. file_request env p aj) (paths_of items)"
proof (induction items arbitrary: w)
  case Nil
  then show ?case by simp
next
  case (Cons item rest)
  from Cons.prems have po: "passed_over env kw aj item w"
    and more: "all_passed_over env kw aj rest (next_world env aj item w)"
    by simp_all
  from visit_passed_over[OF po]
  obtain evs where v: "visit env kw aj item w = (Continue, evs, next_world env aj item w)"
    and rq: "requests_of evs = map (\<lambda>p. file_request env p aj) (paths_of [item])"
    by auto
  from Cons.IH[OF more]
  obtain evs' where s: "scan env kw aj rest (next_world env aj item w) =
        (Continue, evs', world_after env aj rest (next_world env aj item w))"
    and rq': "requests_of evs' = map (\<lambda>p. file_request env p aj) (paths_of rest)"
    by auto
  have "scan env kw aj (item # rest) w =
      (Continue, evs @ evs', world_after env aj (item # rest) w)"
    using v s by simp
  moreover have "requests_of (evs @ evs') = map (\<lambda>p. file_request env p aj) (paths_of (item # rest))"
    using rq rq' by simp
  ultimately show ?case by blast
qed

lemma scan_append:
  "scan env kw aj pre w = (Continue, evs, w1) \<Longrightarrow>
   scan env kw aj (pre @ rest) w =
     (case scan env kw aj rest w1 of (s, evs', w2) \<Rightarrow> (s, evs @ evs', w2))"
proof (induction pre arbitrary: w evs)
  case Nil
  then show ?case by (simp split: prod.splits)
next
  case (Cons item pre)
  then show ?case
    by (auto split: prod.splits step.splits)
qed

lemma scan_return_shape:
  "scan env kw aj items w = (Return v, evs, w1) \<Longrightarrow> \<exists>f c. v = match_dict f c"
proof (induction items arbitrary: w evs)
  case Nil
  then show ?case by simp
next
  case (Cons item rest)
  obtain s evs0 w0 where v: "visit env kw aj item w = (s, evs0, w0)"
    by (cases "visit env kw aj item w")
  show ?case
  proof (cases s)
    case Continue
    with Cons.prems v obtain evs' where "scan env kw aj rest w0 = (Return v, evs', w1)"
      by (auto split: prod.splits)
    then show ?thesis using Cons.IH by blast
  next
    case (Return x)
    with Cons.prems v have "visit env kw aj item w = (Return v, evs0, w0)" by simp
    then show ?thesis by (rule visit_return_shape)
  next
    case (Raise e)
    with Cons.prems v show ?thesis by simp
  qed
qed

lemma scan_skips_failed_fetch:
  assumes "item_path item = Inr p" "truthy p"
    "remote env w (file_request env p aj) = (Inr fr, w1)" "status_code fr \<noteq> 200"
  shows "scan env kw aj (item # rest) w =
     (case scan env kw aj rest w1 of
        (s, evs, w2) \<Rightarrow>
          (s, Http (file_request env p aj) # LogWarning (ja_fetch_failed @ '': '' @ fmt env p) # evs, w2))"
  using visit_status[OF assms] by (simp split: prod.splits)

lemma path_absent_item_path:
  "path_absent item \<longleftrightarrow> (\<exists>p. item_path item = Inr p \<and> \<not> truthy p)"
proof (cases item)
  case (JObject kvs)
  show ?thesis
  proof (cases "map_of kvs ''file''")
    case None
    then show ?thesis using JObject by (simp add: item_path_def)
  next
    case (Some f)
    then show ?thesis using JObject
      by (cases f) (auto simp: item_path_def split: option.splits)
  qed
qed (simp_all add: item_path_def)

subsection \<open>The search step and the whole workflow\<close>

lemma search_raises:
  "remote env w (search_request env q ct) = (Inl e, w1) \<Longrightarrow>
   search_and_find_body env q kw ct aj w = (Inl e, [Http (search_request env q ct)], w1)"
  by (simp add: search_and_find_body_def)

lemma search_status:
  "remote env w (search_request env q ct) = (Inr sr, w1) \<Longrightarrow> status_code sr \<noteq> 200 \<Longrightarrow>
   search_and_find_body env q kw ct aj w =
     (Inr (error_dict (''Search error: status code '' @ str_int (status_code sr))),
      Http (search_request env q ct) # report (''Search error: status code '' @ str_int (status_code sr)),
      w1)"
  by (simp add: search_and_find_body_def Let_def)

lemma search_empty:
  "remote env w (search_request env q ct) = (Inr sr, w1) \<Longrightarrow> status_code sr = 200 \<Longrightarrow>
   json_body sr = Inr results \<Longrightarrow> \<not> truthy results \<Longrightarrow>
   search_and_find_body env q kw ct aj w =
     (Inr (message_dict no_results_msg), [Http (search_request env q ct)], w1)"
  by (simp add: search_and_find_body_def)

lemma search_items:
  "remote env w (search_request env q ct) = (Inr sr, w1) \<Longrightarrow> status_code sr = 200 \<Longrightarrow>
   json_body sr = Inr results \<Longrightarrow> truthy results \<Longrightarrow> py_iter results = Inr items \<Longrightarrow>
   search_and_find_body env q kw ct aj w =
     (case scan env kw aj items w1 of
        (Continue, evs, w2) \<Rightarrow>
          (Inr (message_dict (no_match_msg kw)), Http (search_request env q ct) # evs, w2)
      | (Return v, evs, w2) \<Rightarrow> (Inr v, Http (search_request env q ct) # evs, w2)
      | (Raise e, evs, w2) \<Rightarrow> (Inl e, Http (search_request env q ct) # evs, w2))"
  by (simp add: search_and_find_body_def Let_def)

lemma body_shapes:
  "search_and_find_body env q kw ct aj w = (Inr r, evs, w1) \<Longrightarrow>
     (\<exists>f c. r = match_dict f c) \<or> r = message_dict no_results_msg
       \<or> r = message_dict (no_match_msg kw) \<or> (\<exists>m. r = error_dict m)"
  unfolding search_and_find_body_def Let_def
  by (auto split: sum.splits if_splits prod.splits step.splits dest: scan_return_shape)

lemma search_and_find_search_status:
  assumes "remote env w (search_request env q ct) = (Inr sr, w1)" "status_code sr \<noteq> 200"
  shows "search_and_find_matching_file env q kw ct aj w =
     (error_dict (''Search error: status code '' @ str_int (status_code sr)),
      [Http (search_request env q ct),
       LogError (''Search error: status code '' @ str_int (status_code sr)),
       CtxError (''Search error: status code '' @ str_int (status_code sr))], w1)"
  using search_status[OF assms] by (simp add: search_and_find_matching_file_def report_def)

lemma search_and_find_search_raises:
  assumes "remote env w (search_request env q ct) = (Inl e, w1)"
  shows "search_and_find_matching_file env q kw ct aj w =
     (error_dict (''search_and_find_matching_file '' @ ja_error @ '': '' @ exn_str e),
      [Http (search_request env q ct),
       LogError (''search_and_find_matching_file '' @ ja_error @ '': '' @ exn_str e),
       CtxError (''search_and_find_matching_file '' @ ja_error @ '': '' @ exn_str e)], w1)"
  using search_raises[OF assms] by (simp add: search_and_find_matching_file_def report_def)

subsection \<open>The single-call tools\<close>

lemma failure_has_code:
  "res = wrap (pre @ str_int n @ post) \<Longrightarrow> \<exists>msg. res = wrap msg \<and> contains (str_int n) msg"
  using contains_middle by blast

lemma get_status_on_status:
  assumes "remote env w (get_status_request env) = (Inr r, wa)" "status_code r \<noteq> 200"
  shows "fst (get_status env w) =
    error_dict (''Error: Received status code '' @ str_int (status_code r) @ '' from Obsidian API.'')"
  using assms by (simp add: get_status_def get_status_body_def Let_def)

lemma omni_search_on_status:
  assumes "remote env w (omni_search_request env q) = (Inr r, wa)" "status_code r \<noteq> 200"
  shows "fst (omni_search env q w) =
    JArray [error_dict (''Error: Received status code '' @ str_int (status_code r) @ '' from Omni Search.'')]"
  using assms by (simp add: omni_search_def omni_search_body_def omni_error_def Let_def)

lemma get_active_note_on_status:
  assumes "remote env w (get_active_note_request env aj) = (Inr r, wa)" "status_code r \<noteq> 200"
  shows "fst (get_active_note env aj w) =
    error_dict (''Error: Received status code '' @ str_int (status_code r)
                  @ '' when retrieving active note.'')"
  using assms by (simp add: get_active_note_def get_active_note_body_def Let_def)

lemma get_file_on_status:
  assumes "remote env w (get_file_request env filename aj) = (Inr r, wa)" "status_code r \<noteq> 200"
  shows "fst (get_file env filename aj w) =
    error_dict (''Error: Received status code '' @ str_int (status_code r)
                  @ '' when retrieving file.'' @ [CHR 0x0A] @ '' url: '' @ vault_url env filename)"
  using assms by (simp add: get_file_def get_file_body_def Let_def)

lemma update_file_on_status:
  assumes "remote env w (update_file_request env filename content) = (Inr r, wa)"
    "status_code r \<notin> {200, 204}"
  shows "fst (update_file env filename content w) =
    JString (''Error: Received status code '' @ str_int (status_code r) @ '' when updating file.'')"
  using assms by (simp add: update_file_def update_file_body_def Let_def)

lemma update_file_success_iff:
  "(fst (update_file env filename content w) = JString (updated_msg filename))
     = (\<exists>r wa. remote env w (update_file_request env filename content) = (Inr r, wa)
                \<and> (status_code r = 200 \<or> status_code r = 204))"
proof (cases "remote env w (update_file_request env filename content)")
  case (Pair a wa)
  show ?thesis
  proof (cases a)
    case (Inl e)
    then show ?thesis using Pair
      by (simp add: update_file_def update_file_body_def updated_msg_def)
  next
    case (Inr r)
    then show ?thesis using Pair
      by (simp add: update_file_def update_file_body_def updated_msg_def Let_def)
  qed
qed

lemma update_file_on_success:
  assumes "remote env w (update_file_request env filename content) = (Inr r, wa)"
    "status_code r \<in> {200, 204}"
  shows "update_file env filename content w =
     (JString (updated_msg filename), [Http (update_file_request env filename content)], wa)"
  using assms by (auto simp: update_file_def update_file_body_def)

lemma updated_msg_names_file: "contains filename (updated_msg filename)"
proof -
  have "updated_msg filename = (''File '' @ sq) @ filename @ (sq @ '' updated successfully.'')"
    by (simp add: updated_msg_def)
  then show ?thesis using contains_middle by metis
qed

lemma get_file_json:
  assumes "remote env w (get_file_request env filename True) = (Inr r, wa)"
    "status_code r = 200" "json_body r = Inr j"
  shows "get_file env filename True w =
     (j, [LogDebug (''Retrieving file from URL: '' @ vault_url env filename),
          Http (get_file_request env filename True)], wa)"
  using assms by (simp add: get_file_def get_file_body_def)

lemma get_file_text:
  assumes "remote env w (get_file_request env filename False) = (Inr r, wa)"
    "status_code r = 200"
  shows "get_file env filename False w =
     (JString (body_text r),
      [LogDebug (''Retrieving file from URL: '' @ vault_url env filename),
       Http (get_file_request env filename False)], wa)"
  using assms by (simp add: get_file_def get_file_body_def)

subsection \<open>Where the requests go\<close>

lemma note_api_calls:
  "note_api_call env (get_status_request env)"
  "note_api_call env (get_active_note_request env aj)"
  "note_api_call env (get_file_request env filename aj)"
  "note_api_call env (update_file_request env filename content)"
  "note_api_call env (search_request env q ct)"
  "note_api_call env (file_request env p aj)"
  by (simp_all add: note_api_call_def to_note_api_def starts_with_iff authorized_def bearer_def
      vault_url_def get_status_request_def get_active_note_request_def
      get_file_request_def update_file_request_def search_request_def file_request_def)

lemma requests_of_report [simp]: "requests_of (report msg) = []"
  by (simp add: report_def)

lemma get_status_requests:
  "requests_of (fst (snd (get_status env w))) = [get_status_request env]"
  by (simp add: get_status_def get_status_body_def Let_def
      split: prod.splits sum.splits)

lemma omni_search_requests:
  "requests_of (fst (snd (omni_search env q w))) = [omni_search_request env q]"
  by (simp add: omni_search_def omni_search_body_def Let_def
      split: prod.splits sum.splits)

lemma get_active_note_requests:
  "requests_of (fst (snd (get_active_note env aj w))) = [get_active_note_request env aj]"
  by (simp add: get_active_note_def get_active_note_body_def Let_def
      split: prod.splits sum.splits)

lemma get_file_requests:
  "requests_of (fst (snd (get_file env filename aj w))) = [get_file_request env filename aj]"
  by (simp add: get_file_def get_file_body_def Let_def
      split: prod.splits sum.splits)

lemma update_file_requests:
  "requests_of (fst (snd (update_file env filename content w))) =
     [update_file_request env filename content]"
  by (simp add: update_file_def update_file_body_def Let_def
      split: prod.splits sum.splits)

lemma visit_requests:
  "visit env kw aj item w = (s, evs, wa) \<Longrightarrow>
   requests_of evs = [] \<or> (\<exists>p. requests_of evs = [file_request env p aj])"
  by (auto simp: visit_def Let_def split: sum.splits if_splits prod.splits)

lemma visit_note_api:
  "visit env kw aj item w = (s, evs, wa) \<Longrightarrow> list_all (note_api_call env) (requests_of evs)"
  using visit_requests[of env kw aj item w s evs wa] note_api_calls(6)[of env _ aj]
  by auto

lemma scan_note_api:
  "scan env kw aj items w = (s, evs, wa) \<Longrightarrow> list_all (note_api_call env) (requests_of evs)"
proof (induction items arbitrary: w s evs wa)
  case Nil
  then show ?case by auto
next
  case (Cons item rest)
  obtain s0 evs0 w0 where v: "visit env kw aj item w = (s0, evs0, w0)"
    by (cases "visit env kw aj item w")
  have a0: "list_all (note_api_call env) (requests_of evs0)"
    using visit_note_api[OF v] .
  show ?case
  proof (cases s0)
    case Continue
    obtain s1 evs1 w1 where r: "scan env kw aj rest w0 = (s1, evs1, w1)"
      by (cases "scan env kw aj rest w0")
    have "evs = evs0 @ evs1" using Cons.prems v r Continue by simp
    then show ?thesis using a0 Cons.IH[OF r] by simp
  next
    case (Return x)
    then have "evs = evs0" using Cons.prems v by simp
    then show ?thesis using a0 by simp
  next
    case (Raise e)
    then have "evs = evs0" using Cons.prems v by simp
    then show ?thesis using a0 by simp
  qed
qed

lemma search_and_find_note_api:
  "list_all (note_api_call env)
     (requests_of (fst (snd (search_and_find_matching_file env q kw ct aj w))))"
proof -
  have body: "\<And>a evs wa. search_and_find_body env q kw ct aj w = (a, evs, wa) \<Longrightarrow>
      list_all (note_api_call env) (requests_of evs)"
    unfolding search_and_find_body_def Let_def
    by (auto simp: note_api_calls split: prod.splits sum.splits if_splits step.splits
        dest: scan_note_api)
  obtain a evs wa where b: "search_and_find_body env q kw ct aj w = (a, evs, wa)"
    by (cases "search_and_find_body env q kw ct aj w")
  show ?thesis using body[OF b] b
    by (cases a) (simp_all add: search_and_find_matching_file_def)
qed

subsection \<open>What each outcome of the workflow comes from\<close>

lemma visit_return_is_match:
  assumes "visit env kw aj item w = (Return v, evs, wa)"
  shows "\<exists>p fr content. item_path item = Inr p \<and> truthy p
           \<and> remote env w (file_request env p aj) = (Inr fr, wa) \<and> status_code fr = 200
           \<and> content_of aj fr = Inr content \<and> contains kw (haystack env aj content)
           \<and> v = match_dict p content"
proof -
  from assms obtain p where p: "item_path item = Inr p" and t: "truthy p"
    by (auto simp: visit_def Let_def split: sum.splits if_splits prod.splits)
  obtain a wb where rem: "remote env w (file_request env p aj) = (a, wb)"
    by (cases "remote env w (file_request env p aj)")
  from assms p t rem obtain fr where fr: "a = Inr fr" and st: "status_code fr = 200"
    by (auto simp: visit_def Let_def split: sum.splits if_splits)
  from assms p t rem fr st obtain content where c: "content_of aj fr = Inr content"
    by (auto simp: visit_def Let_def split: sum.splits if_splits)
  from assms p t rem fr st c have "contains kw (haystack env aj content)"
    and "v = match_dict p content" and "wa = wb"
    by (auto simp: visit_def Let_def split: if_splits)
  then show ?thesis using p t rem fr st c by blast
qed

lemma scan_return_is_match:
  "scan env kw aj items w = (Return v, evs, wa) \<Longrightarrow>
     \<exists>p fr wc content. truthy p
           \<and> remote env wc (file_request env p aj) = (Inr fr, wa) \<and> status_code fr = 200
           \<and> content_of aj fr = Inr content \<and> contains kw (haystack env aj content)
           \<and> v = match_dict p content"
proof (induction items arbitrary: w evs)
  case Nil
  then show ?case by simp
next
  case (Cons item rest)
  obtain s evs0 w0 where v: "visit env kw aj item w = (s, evs0, w0)"
    by (cases "visit env kw aj item w")
  show ?case
  proof (cases s)
    case Continue
    with Cons.prems v obtain evs' where "scan env kw aj rest w0 = (Return v, evs', wa)"
      by (auto split: prod.splits)
    then show ?thesis using Cons.IH by blast
  next
    case (Return x)
    with Cons.prems v have "visit env kw aj item w = (Return v, evs0, wa)" by simp
    from visit_return_is_match[OF this] show ?thesis by blast
  next
    case (Raise e)
    with Cons.prems v show ?thesis by simp
  qed
qed

lemma dict_keys_simps [simp]:
  "dict_keys (match_dict p content) = Some [''filename'', ''content'']"
  "dict_keys (message_dict m) = Some [''message'']"
  "dict_keys (error_dict m) = Some [''error'']"
  by (simp_all add: match_dict_def message_dict_def error_dict_def)

lemma body_match_cause:
  assumes "search_and_find_body env q kw ct aj w = (Inr r, evs, wa)"
    and "dict_keys r = Some [''filename'', ''content'']"
  shows "\<exists>p fr wc content. r = match_dict p content \<and> truthy p
           \<and> remote env wc (file_request env p aj) = (Inr fr, wa) \<and> status_code fr = 200
           \<and> content_of aj fr = Inr content \<and> contains kw (haystack env aj content)"
proof -
  from assms obtain items wb evs' where "scan env kw aj items wb = (Return r, evs', wa)"
    unfolding search_and_find_body_def Let_def
    by (auto split: sum.splits if_splits prod.splits step.splits)
  from scan_return_is_match[OF this] show ?thesis by blast
qed

lemma body_error_cause:
  assumes "search_and_find_body env q kw ct aj w = (Inr r, evs, wa)"
    and "dict_keys r = Some [''error'']"
  shows "\<exists>sr. remote env w (search_request env q ct) = (Inr sr, wa) \<and> status_code sr \<noteq> 200"
  using assms unfolding search_and_find_body_def Let_def
  by (auto split: sum.splits if_splits prod.splits step.splits dest: scan_return_shape)

lemma body_raise_gives_error:
  assumes "search_and_find_body env q kw ct aj w = (Inl e, evs, wa)"
  shows "search_and_find_matching_file env q kw ct aj w =
     (error_dict (''search_and_find_matching_file '' @ ja_error @ '': '' @ exn_str e),
      evs @ report (''search_and_find_matching_file '' @ ja_error @ '': '' @ exn_str e), wa)"
  using assms by (simp add: search_and_find_matching_file_def)

lemma body_return_is_result:
  assumes "search_and_find_body env q kw ct aj w = (Inr r, evs, wa)"
  shows "search_and_find_matching_file env q kw ct aj w = (r, evs, wa)"
  using assms by (simp add: search_and_find_matching_file_def)

lemma search_decode_raises:
  "remote env w (search_request env q ct) = (Inr sr, wa) \<Longrightarrow> status_code sr = 200 \<Longrightarrow>
   json_body sr = Inl e \<Longrightarrow>
   search_and_find_body env q kw ct aj w = (Inl e, [Http (search_request env q ct)], wa)"
  by (simp add: search_and_find_body_def)

lemma search_iter_raises:
  "remote env w (search_request env q ct) = (Inr sr, wa) \<Longrightarrow> status_code sr = 200 \<Longrightarrow>
   json_body sr = Inr results \<Longrightarrow> truthy results \<Longrightarrow> py_iter results = Inl e \<Longrightarrow>
   search_and_find_body env q kw ct aj w = (Inl e, [Http (search_request env q ct)], wa)"
  by (simp add: search_and_find_body_def)

lemma hit_after_passed_over:
  assumes search: "remote env w (search_request env q ct) = (Inr sr, wa)" "status_code sr = 200"
      "json_body sr = Inr (JArray (pre @ c # post))"
    and earlier: "all_passed_over env kw aj pre wa"
    and hit: "item_path c = Inr p" "truthy p"
      "remote env (world_after env aj pre wa) (file_request env p aj) = (Inr fr, wb)"
      "status_code fr = 200" "content_of aj fr = Inr content"
      "contains kw (haystack env aj content)"
  shows "\<exists>evs. search_and_find_matching_file env q kw ct aj w =
           (match_dict p content, Http (search_request env q ct) # evs @ [Http (file_request env p aj)], wb)
         \<and> requests_of evs = map (\<lambda>p. file_request env p aj) (paths_of pre)"
proof -
  obtain evs where pre: "scan env kw aj pre wa = (Continue, evs, world_after env aj pre wa)"
    and rq: "requests_of evs = map (\<lambda>p. file_request env p aj) (paths_of pre)"
    using scan_all_passed_over[OF earlier] by blast
  have v: "visit env kw aj c (world_after env aj pre wa) =
      (Return (match_dict p content), [Http (file_request env p aj)], wb)"
    using visit_hit[OF hit(1) hit(2) hit(3) hit(4) hit(5) hit(6)] .
  have sc: "scan env kw aj (pre @ c # post) wa =
          (Return (match_dict p content), evs @ [Http (file_request env p aj)], wb)"
    using scan_append[OF pre, of "c # post"] v by simp
  have "search_and_find_body env q kw ct aj w =
          (Inr (match_dict p content),
           Http (search_request env q ct) # evs @ [Http (file_request env p aj)], wb)"
    using search_items[OF search(1) search(2) search(3), of "pre @ c # post" kw aj] sc by simp
  then have "search_and_find_matching_file env q kw ct aj w =
           (match_dict p content, Http (search_request env q ct) # evs @ [Http (file_request env p aj)], wb)"
    by (rule body_return_is_result)
  then show ?thesis using rq by blast
qed

section \<open>The properties of the specification\<close>

subsection \<open>The first matching candidate\<close>

text \<open>
  C1, as the code has it.  The search is answered with status 200 and the list
  \<open>pre @ c # post\<close>.  Every candidate of \<open>pre\<close> is passed over in the world it is reached
  in: it has no path, or its fetch is answered with a status other than 200, or with
  content that does not contain the keyword.  The fetch of \<open>c\<close>, in the world \<open>pre\<close> leaves
  behind, is answered with status 200 and content that contains the keyword.  Then the
  workflow returns \<open>c\<close>, its path and its content, and the requests it has sent are the
  search, one fetch for each candidate of \<open>pre\<close> that has a path, and the fetch of \<open>c\<close>:
  a failed fetch before \<open>c\<close> does not keep \<open>c\<close> from being returned, and nothing after
  \<open>c\<close> is fetched.
\<close>

theorem first_match_returned:
  assumes search: "remote env w (search_request env q ct) = (Inr sr, wa)" "status_code sr = 200"
      "json_body sr = Inr (JArray (pre @ c # post))"
    and earlier: "all_passed_over env kw aj pre wa"
    and hit: "item_path c = Inr p" "truthy p"
      "remote env (world_after env aj pre wa) (file_request env p aj) = (Inr fr, wb)"
      "status_code fr = 200" "content_of aj fr = Inr content"
      "contains kw (haystack env aj content)"
  shows "fst (search_and_find_matching_file env q kw ct aj w) = match_dict p content
       \<and> requests_of (fst (snd (search_and_find_matching_file env q kw ct aj w))) =
           search_request env q ct # map (\<lambda>p. file_request env p aj) (paths_of pre @ [p])
       \<and> snd (snd (search_and_find_matching_file env q kw ct aj w)) = wb"
proof -
  from hit_after_passed_over[OF search earlier hit]
  obtain evs where r: "search_and_find_matching_file env q kw ct aj w =
           (match_dict p content, Http (search_request env q ct) # evs @ [Http (file_request env p aj)], wb)"
    and rq: "requests_of evs = map (\<lambda>p. file_request env p aj) (paths_of pre)"
    by blast
  show ?thesis using rq by (simp add: r)
qed

text \<open>The candidates \<open>[a.md, b.md]\<close> of the specification's example: the fetch of \<open>a.md\<close> fails
  with 404, \<open>b.md\<close> holds the keyword, and the result is \<open>b.md\<close>.\<close>

theorem first_match_returned_witness:
  "fst (search_and_find_matching_file demo_env ''LIST FROM #hello'' ''Hello'' dql True 0) =
     match_dict (JString ''b.md'') demo_note
   \<and> map req_url
        (requests_of (fst (snd (search_and_find_matching_file demo_env ''LIST FROM #hello'' ''Hello'' dql True 0)))) =
       [''http://127.0.0.1:27123/search'', ''http://127.0.0.1:27123/vault/a.md'',
        ''http://127.0.0.1:27123/vault/b.md'']"
  using first_match_returned[where env = demo_env and w = 0 and wa = 1 and wb = 3
      and q = "''LIST FROM #hello''" and ct = dql and kw = "''Hello''" and aj = True
      and sr = "json_response 200 (demo_search (Some ''LIST FROM #hello''))
                  (search_request demo_env ''LIST FROM #hello'' dql)"
      and pre = "[demo_item ''a.md'']" and c = "demo_item ''b.md''" and post = "[]"
      and p = "JString ''b.md''" and content = demo_note
      and fr = "json_response 200 demo_note (file_request demo_env (JString ''b.md'') True)"]
  by (simp add: demo_unfold passed_over_def next_world_def)

text \<open>
  Not every list is scanned that far.  In the list \<open>[down.md, b.md]\<close> the first candidate
  whose fetched content contains the keyword is \<open>b.md\<close>, but the fetch of \<open>down.md\<close> raises:
  the workflow returns a failure and \<open>b.md\<close> is never asked for.
\<close>

theorem first_match_lost_counterexample:
  "demo_answer (file_request demo_env (JString ''b.md'') True) =
     Inr (json_response 200 demo_note (file_request demo_env (JString ''b.md'') True))
   \<and> contains ''Hello'' (haystack demo_env True demo_note)
   \<and> fst (search_and_find_matching_file demo_env ''LIST FROM #down'' ''Hello'' dql True 0) =
       error_dict (''search_and_find_matching_file '' @ ja_error @ '': timed out'')
   \<and> map req_url
        (requests_of (fst (snd (search_and_find_matching_file demo_env ''LIST FROM #down'' ''Hello'' dql True 0)))) =
       [''http://127.0.0.1:27123/search'', ''http://127.0.0.1:27123/vault/down.md'']"
  by (simp add: demo_unfold search_and_find_matching_file_def search_and_find_body_def visit_def)

subsection \<open>An empty search result\<close>

text \<open>
  C2.  When the search is answered with status 200 and an empty result (the empty list,
  or any other JSON value Python takes for false), the workflow returns the "no results"
  message after that one request.  This outcome is not the "no match" outcome and not a
  failure.
\<close>

theorem empty_search_gives_no_results:
  assumes "remote env w (search_request env q ct) = (Inr sr, wa)"
    and "status_code sr = 200"
    and "json_body sr = Inr results"
    and "\<not> truthy results"
  shows "search_and_find_matching_file env q kw ct aj w =
           (message_dict no_results_msg, [Http (search_request env q ct)], wa)
         \<and> message_dict no_results_msg \<noteq> message_dict (no_match_msg kw)
         \<and> dict_keys (message_dict no_results_msg) \<noteq> dict_keys (error_dict m)"
  using search_empty[OF assms] no_results_neq_no_match
  by (simp add: search_and_find_matching_file_def message_dict_def error_dict_def)

theorem empty_search_gives_no_results_witness:
  "search_and_find_matching_file demo_env ''LIST FROM #nothing'' ''Hello'' dql False 0 =
     (message_dict no_results_msg, [Http (search_request demo_env ''LIST FROM #nothing'' dql)], 1)"
  using empty_search_gives_no_results[where env = demo_env and w = 0 and wa = 1
      and q = "''LIST FROM #nothing''" and ct = dql and results = "JArray []" and kw = "''Hello''"
      and aj = False
      and sr = "json_response 200 (JArray []) (search_request demo_env ''LIST FROM #nothing'' dql)"]
  by (simp add: demo_simps demo_answer_def demo_search_def json_response_def search_request_def)

subsection \<open>No candidate holds the keyword\<close>

text \<open>
  C3, as the code has it.  The search is answered with status 200 and a non-empty list,
  and every candidate is passed over in the world it is reached in: its fetch is answered
  with content that does not contain the keyword, or with a status other than 200, or it
  has no path.  Then the workflow returns the "no match" message, which names the
  keyword, and the requests it has sent are the search followed by exactly one fetch for
  each candidate that has a path, in the order of the list.
\<close>

theorem no_match_after_full_scan:
  assumes search: "remote env w (search_request env q ct) = (Inr sr, wa)" "status_code sr = 200"
      "json_body sr = Inr (JArray items)" "items \<noteq> []"
    and none: "all_passed_over env kw aj items wa"
  shows "fst (search_and_find_matching_file env q kw ct aj w) = message_dict (no_match_msg kw)
       \<and> requests_of (fst (snd (search_and_find_matching_file env q kw ct aj w))) =
           search_request env q ct # map (\<lambda>p. file_request env p aj) (paths_of items)
       \<and> snd (snd (search_and_find_matching_file env q kw ct aj w)) = world_after env aj items wa
       \<and> contains kw (no_match_msg kw)"
proof -
  obtain evs where sc: "scan env kw aj items wa = (Continue, evs, world_after env aj items wa)"
    and rq: "requests_of evs = map (\<lambda>p. file_request env p aj) (paths_of items)"
    using scan_all_passed_over[OF none] by blast
  have "search_and_find_body env q kw ct aj w =
          (Inr (message_dict (no_match_msg kw)), Http (search_request env q ct) # evs,
           world_after env aj items wa)"
    using search_items[OF search(1) search(2) search(3), of items kw aj] search(4) sc by simp
  then show ?thesis using rq no_match_contains
    by (simp add: search_and_find_matching_file_def)
qed

theorem no_match_after_full_scan_witness:
  "fst (search_and_find_matching_file demo_env ''LIST FROM #hello'' ''zebra'' dql False 0) =
     message_dict (no_match_msg ''zebra'')
   \<and> map req_url
        (requests_of (fst (snd (search_and_find_matching_file demo_env ''LIST FROM #hello'' ''zebra'' dql False 0)))) =
       [''http://127.0.0.1:27123/search'', ''http://127.0.0.1:27123/vault/a.md'',
        ''http://127.0.0.1:27123/vault/b.md'']"
  using no_match_after_full_scan[where env = demo_env and w = 0 and wa = 1
      and q = "''LIST FROM #hello''" and ct = dql and kw = "''zebra''" and aj = False
      and sr = "json_response 200 (demo_search (Some ''LIST FROM #hello''))
                  (search_request demo_env ''LIST FROM #hello'' dql)"
      and items = "[demo_item ''a.md'', demo_item ''b.md'']"]
  by (simp add: demo_unfold passed_over_def next_world_def)

text \<open>
  That no candidate's content contains the keyword is not enough.  Neither candidate of
  \<open>[down.md, b.md]\<close> has content with \<open>zebra\<close> in it, but the fetch of \<open>down.md\<close> raises: the
  workflow returns a failure instead of the "no match" message, and \<open>b.md\<close> is not visited.
\<close>

theorem no_match_lost_counterexample:
  "\<not> contains ''zebra'' demo_markdown
   \<and> search_and_find_matching_file demo_env ''LIST FROM #down'' ''zebra'' dql False 0 =
     (error_dict (''search_and_find_matching_file '' @ ja_error @ '': timed out''),
      [Http (search_request demo_env ''LIST FROM #down'' dql),
       Http (file_request demo_env (JString ''down.md'') False),
       LogError (''search_and_find_matching_file '' @ ja_error @ '': timed out''),
       CtxError (''search_and_find_matching_file '' @ ja_error @ '': timed out'')], 2)
   \<and> fst (search_and_find_matching_file demo_env ''LIST FROM #down'' ''zebra'' dql False 0)
       \<noteq> message_dict (no_match_msg ''zebra'')"
  by (simp add: demo_unfold search_and_find_matching_file_def search_and_find_body_def visit_def
      report_def error_dict_def message_dict_def)

subsection \<open>Which failures end the workflow\<close>

text \<open>
  C4, as the code has it.  A search answered with a status other than 200, and a search
  that raises, end the workflow at once with a failure: the only request sent is the
  search, and the failure is logged and reported.  A fetch of a candidate answered with
  a status other than 200 is logged as a warning and the scan goes on with the next
  candidate.
\<close>

theorem search_failure_fatal_fetch_status_skipped:
  "(remote env w (search_request env q ct) = (Inr sr, wa) \<and> status_code sr \<noteq> 200 \<longrightarrow>
      search_and_find_matching_file env q kw ct aj w =
        (error_dict (''Search error: status code '' @ str_int (status_code sr)),
         [Http (search_request env q ct),
          LogError (''Search error: status code '' @ str_int (status_code sr)),
          CtxError (''Search error: status code '' @ str_int (status_code sr))], wa))
   \<and> (remote env w (search_request env q ct) = (Inl e, wa) \<longrightarrow>
      search_and_find_matching_file env q kw ct aj w =
        (error_dict (''search_and_find_matching_file '' @ ja_error @ '': '' @ exn_str e),
         [Http (search_request env q ct),
          LogError (''search_and_find_matching_file '' @ ja_error @ '': '' @ exn_str e),
          CtxError (''search_and_find_matching_file '' @ ja_error @ '': '' @ exn_str e)], wa))
   \<and> (item_path item = Inr p \<and> truthy p
        \<and> remote env wb (file_request env p aj) = (Inr fr, wc) \<and> status_code fr \<noteq> 200 \<longrightarrow>
      scan env kw aj (item # rest) wb =
        (case scan env kw aj rest wc of
           (s, evs, wd) \<Rightarrow>
             (s, Http (file_request env p aj)
                 # LogWarning (ja_fetch_failed @ '': '' @ fmt env p) # evs, wd)))"
proof (intro conjI impI)
  assume "remote env w (search_request env q ct) = (Inr sr, wa) \<and> status_code sr \<noteq> 200"
  then have a: "remote env w (search_request env q ct) = (Inr sr, wa)"
    and b: "status_code sr \<noteq> 200" by simp_all
  show "search_and_find_matching_file env q kw ct aj w =
        (error_dict (''Search error: status code '' @ str_int (status_code sr)),
         [Http (search_request env q ct),
          LogError (''Search error: status code '' @ str_int (status_code sr)),
          CtxError (''Search error: status code '' @ str_int (status_code sr))], wa)"
    by (rule search_and_find_search_status[OF a b])
next
  assume "remote env w (search_request env q ct) = (Inl e, wa)"
  then show "search_and_find_matching_file env q kw ct aj w =
        (error_dict (''search_and_find_matching_file '' @ ja_error @ '': '' @ exn_str e),
         [Http (search_request env q ct),
          LogError (''search_and_find_matching_file '' @ ja_error @ '': '' @ exn_str e),
          CtxError (''search_and_find_matching_file '' @ ja_error @ '': '' @ exn_str e)], wa)"
    by (rule search_and_find_search_raises)
next
  assume "item_path item = Inr p \<and> truthy p
        \<and> remote env wb (file_request env p aj) = (Inr fr, wc) \<and> status_code fr \<noteq> 200"
  then have a: "item_path item = Inr p" and b: "truthy p"
    and c: "remote env wb (file_request env p aj) = (Inr fr, wc)" and d: "status_code fr \<noteq> 200"
    by simp_all
  show "scan env kw aj (item # rest) wb =
        (case scan env kw aj rest wc of
           (s, evs, wd) \<Rightarrow>
             (s, Http (file_request env p aj)
                 # LogWarning (ja_fetch_failed @ '': '' @ fmt env p) # evs, wd))"
    by (rule scan_skips_failed_fetch[OF a b c d])
qed

theorem search_failure_fatal_fetch_status_skipped_witness:
  "fst (search_and_find_matching_file down_env ''LIST FROM #hello'' ''Hello'' dql False 0) =
     error_dict ''Search error: status code 503''
   \<and> fst (search_and_find_matching_file offline_env ''LIST FROM #hello'' ''Hello'' dql False 0) =
     error_dict (''search_and_find_matching_file '' @ ja_error @ '': All connection attempts failed'')
   \<and> scan demo_env ''Hello'' False [demo_item ''a.md'', demo_item ''b.md''] 0 =
       (Return (match_dict (JString ''b.md'') (JString demo_markdown)),
        [Http (file_request demo_env (JString ''a.md'') False),
         LogWarning (ja_fetch_failed @ '': a.md''),
         Http (file_request demo_env (JString ''b.md'') False)], 2)"
  using search_failure_fatal_fetch_status_skipped[where env = down_env and w = 0 and q = "''LIST FROM #hello''"
      and ct = dql and kw = "''Hello''" and aj = False and wa = 1
      and sr = "text_response 503 ''Service Unavailable'' (search_request down_env ''LIST FROM #hello'' dql)"]
    search_failure_fatal_fetch_status_skipped[where env = offline_env and w = 0 and q = "''LIST FROM #hello''"
      and ct = dql and kw = "''Hello''" and aj = False and wa = 1
      and e = "HTTPError ''All connection attempts failed''"]
    search_failure_fatal_fetch_status_skipped[where env = demo_env and wb = 0 and kw = "''Hello''" and aj = False
      and item = "demo_item ''a.md''" and p = "JString ''a.md''" and wc = 1
      and rest = "[demo_item ''b.md'']"
      and fr = "text_response 404 ''Not Found'' (file_request demo_env (JString ''a.md'') False)"]
  by (simp add: demo_unfold visit_def match_dict_def)

text \<open>
  The search is not the only failure that ends the workflow: a fetch that raises does
  too.  Here the fetch of \<open>down.md\<close> times out; the workflow returns a failure and never
  asks for \<open>b.md\<close>, which holds the keyword.
\<close>

theorem fetch_exception_aborts_scan_counterexample:
  "demo_answer (file_request demo_env (JString ''b.md'') False) =
     Inr (text_response 200 demo_markdown (file_request demo_env (JString ''b.md'') False))
   \<and> search_and_find_matching_file demo_env ''LIST FROM #down'' ''Hello'' dql False 0 =
     (error_dict (''search_and_find_matching_file '' @ ja_error @ '': timed out''),
      [Http (search_request demo_env ''LIST FROM #down'' dql),
       Http (file_request demo_env (JString ''down.md'') False)]
        @ report (''search_and_find_matching_file '' @ ja_error @ '': timed out''), 2)"
  by (simp add: demo_unfold search_and_find_matching_file_def search_and_find_body_def visit_def)

subsection \<open>A status that is not a success\<close>

text \<open>
  C5, as the code has it.  When the request a tool sends is answered with a status that
  is not a success (other than 200; for \<open>update_file\<close> other than 200 and 204), the tool
  returns its failure value, whose message contains the status code in decimal:
  \<open>get_status\<close>, \<open>get_active_note\<close>, \<open>get_file\<close> and the workflow return the \<open>error\<close> dict,
  \<open>omni_search\<close> a list holding it, \<open>update_file\<close> the message itself, which is not its
  confirmation.  For the workflow the request is the search.
\<close>

theorem adapters_fail_on_status:
  "(remote env w (get_status_request env) = (Inr r, wa) \<and> status_code r \<noteq> 200 \<longrightarrow>
      (\<exists>msg. fst (get_status env w) = error_dict msg \<and> contains (str_int (status_code r)) msg))
   \<and> (remote env w (omni_search_request env q) = (Inr r, wa) \<and> status_code r \<noteq> 200 \<longrightarrow>
      (\<exists>msg. fst (omni_search env q w) = JArray [error_dict msg]
             \<and> contains (str_int (status_code r)) msg))
   \<and> (remote env w (get_active_note_request env aj) = (Inr r, wa) \<and> status_code r \<noteq> 200 \<longrightarrow>
      (\<exists>msg. fst (get_active_note env aj w) = error_dict msg
             \<and> contains (str_int (status_code r)) msg))
   \<and> (remote env w (get_file_request env filename aj) = (Inr r, wa) \<and> status_code r \<noteq> 200 \<longrightarrow>
      (\<exists>msg. fst (get_file env filename aj w) = error_dict msg
             \<and> contains (str_int (status_code r)) msg))
   \<and> (remote env w (update_file_request env filename content) = (Inr r, wa)
        \<and> status_code r \<notin> {200, 204} \<longrightarrow>
      (\<exists>msg. fst (update_file env filename content w) = JString msg
             \<and> contains (str_int (status_code r)) msg \<and> msg \<noteq> updated_msg filename))
   \<and> (remote env w (search_request env query ct) = (Inr r, wa) \<and> status_code r \<noteq> 200 \<longrightarrow>
      (\<exists>msg. fst (search_and_find_matching_file env query kw ct aj w) = error_dict msg
             \<and> contains (str_int (status_code r)) msg))"
proof (intro conjI impI)
  assume h: "remote env w (get_status_request env) = (Inr r, wa) \<and> status_code r \<noteq> 200"
  show "\<exists>msg. fst (get_status env w) = error_dict msg \<and> contains (str_int (status_code r)) msg"
    by (rule failure_has_code[where wrap = error_dict])
       (rule get_status_on_status[of env w r wa], use h in simp_all)
next
  assume h: "remote env w (omni_search_request env q) = (Inr r, wa) \<and> status_code r \<noteq> 200"
  show "\<exists>msg. fst (omni_search env q w) = JArray [error_dict msg]
             \<and> contains (str_int (status_code r)) msg"
    by (rule failure_has_code[where wrap = "\<lambda>msg. JArray [error_dict msg]"])
       (rule omni_search_on_status[of env w q r wa], use h in simp_all)
next
  assume h: "remote env w (get_active_note_request env aj) = (Inr r, wa) \<and> status_code r \<noteq> 200"
  show "\<exists>msg. fst (get_active_note env aj w) = error_dict msg
             \<and> contains (str_int (status_code r)) msg"
    by (rule failure_has_code[where wrap = error_dict])
       (rule get_active_note_on_status[of env w aj r wa], use h in simp_all)
next
  assume h: "remote env w (get_file_request env filename aj) = (Inr r, wa) \<and> status_code r \<noteq> 200"
  show "\<exists>msg. fst (get_file env filename aj w) = error_dict msg
             \<and> contains (str_int (status_code r)) msg"
    by (rule failure_has_code[where wrap = error_dict])
       (rule get_file_on_status[of env w filename aj r wa], use h in simp_all)
next
  assume h: "remote env w (update_file_request env filename content) = (Inr r, wa)
        \<and> status_code r \<notin> {200, 204}"
  let ?msg = "''Error: Received status code '' @ str_int (status_code r) @ '' when updating file.''"
  have res: "fst (update_file env filename content w) = JString ?msg"
    by (rule update_file_on_status[of env w filename content r wa]) (use h in simp_all)
  have code: "contains (str_int (status_code r)) ?msg"
    by (rule contains_middle)
  have other: "?msg \<noteq> updated_msg filename"
    by (simp add: updated_msg_def)
  show "\<exists>msg. fst (update_file env filename content w) = JString msg
             \<and> contains (str_int (status_code r)) msg \<and> msg \<noteq> updated_msg filename"
    by (rule exI[where x = ?msg]) (intro conjI res code other)
next
  assume h: "remote env w (search_request env query ct) = (Inr r, wa) \<and> status_code r \<noteq> 200"
  have res: "fst (search_and_find_matching_file env query kw ct aj w) =
    error_dict (''Search error: status code '' @ str_int (status_code r) @ [])"
    using search_and_find_search_status[of env w query ct r wa kw aj] h by simp
  show "\<exists>msg. fst (search_and_find_matching_file env query kw ct aj w) = error_dict msg
             \<and> contains (str_int (status_code r)) msg"
    by (rule failure_has_code[where wrap = error_dict]) (rule res)
qed

theorem adapters_fail_on_status_witness:
  "fst (get_status down_env 0) =
     error_dict ''Error: Received status code 503 from Obsidian API.''
   \<and> fst (omni_search down_env ''#prompts,useEffect'' 0) =
     JArray [error_dict ''Error: Received status code 503 from Omni Search.'']
   \<and> fst (get_active_note down_env True 0) =
     error_dict ''Error: Received status code 503 when retrieving active note.''
   \<and> fst (get_file down_env ''b.md'' False 0) =
     error_dict (''Error: Received status code 503 when retrieving file.'' @ [CHR 0x0A]
                  @ '' url: http://127.0.0.1:27123/vault/b.md'')
   \<and> fst (update_file down_env ''b.md'' ''# Hello'' 0) =
     JString ''Error: Received status code 503 when updating file.''
   \<and> fst (search_and_find_matching_file down_env ''LIST FROM #hello'' ''Hello'' dql False 0) =
     error_dict ''Search error: status code 503''
   \<and> contains (str_int 503) ''Search error: status code 503''"
  using adapters_fail_on_status[where env = down_env and w = 0 and wa = 1
      and r = "text_response 503 ''Service Unavailable'' (get_status_request down_env)"]
    adapters_fail_on_status[where env = down_env and w = 0 and wa = 1 and q = "''#prompts,useEffect''"
      and r = "text_response 503 ''Service Unavailable'' (omni_search_request down_env ''#prompts,useEffect'')"]
    adapters_fail_on_status[where env = down_env and w = 0 and wa = 1 and aj = True
      and r = "text_response 503 ''Service Unavailable'' (get_active_note_request down_env True)"]
    adapters_fail_on_status[where env = down_env and w = 0 and wa = 1 and aj = False
      and filename = "''b.md''"
      and r = "text_response 503 ''Service Unavailable'' (get_file_request down_env ''b.md'' False)"]
    adapters_fail_on_status[where env = down_env and w = 0 and wa = 1
      and filename = "''b.md''" and content = "''# Hello''"
      and r = "text_response 503 ''Service Unavailable'' (update_file_request down_env ''b.md'' ''# Hello'')"]
    adapters_fail_on_status[where env = down_env and w = 0 and wa = 1 and aj = False
      and query = "''LIST FROM #hello''" and ct = dql and kw = "''Hello''"
      and r = "text_response 503 ''Service Unavailable'' (search_request down_env ''LIST FROM #hello'' dql)"]
  by (simp add: demo_simps text_response_def get_status_def get_status_body_def
      omni_search_def omni_search_body_def omni_error_def get_active_note_def get_active_note_body_def
      get_file_def get_file_body_def update_file_def update_file_body_def vault_url_def
      search_and_find_matching_file_def search_and_find_body_def Let_def)

text \<open>
  A status that is not a success does not always give a failure: the fetch of a candidate
  is a request of the workflow too.  Here \<open>a.md\<close> is answered with 404 and the workflow
  still returns the match \<open>b.md\<close>, with a warning in the log.
\<close>

theorem fetch_status_not_reported_counterexample:
  "demo_answer (file_request demo_env (JString ''a.md'') False) =
     Inr (text_response 404 ''Not Found'' (file_request demo_env (JString ''a.md'') False))
   \<and> search_and_find_matching_file demo_env ''LIST FROM #hello'' ''Hello'' dql False 0 =
       (match_dict (JString ''b.md'') (JString demo_markdown),
        [Http (search_request demo_env ''LIST FROM #hello'' dql),
         Http (file_request demo_env (JString ''a.md'') False),
         LogWarning (ja_fetch_failed @ '': a.md''),
         Http (file_request demo_env (JString ''b.md'') False)], 3)"
  by (simp add: demo_unfold search_and_find_matching_file_def search_and_find_body_def visit_def)

subsection \<open>Writing a file\<close>

text \<open>
  C6.  \<open>update_file\<close> returns its confirmation exactly when the PUT is answered with
  status 200 or 204; the confirmation names the file.  The request is a PUT to the file's
  URL whose body is the content given, nothing else.  Invoked again on the same file with
  other content, and answered with a success again, it returns the same confirmation, and
  the second request carries the second content alone: the tool keeps nothing between
  calls that it could append to.
\<close>

theorem update_file_overwrites:
  "((fst (update_file env filename content w) = JString (updated_msg filename))
      = (\<exists>r wa. remote env w (update_file_request env filename content) = (Inr r, wa)
                 \<and> (status_code r = 200 \<or> status_code r = 204)))
   \<and> contains filename (updated_msg filename)
   \<and> req_method (update_file_request env filename content) = PUT
   \<and> req_url (update_file_request env filename content) = vault_url env filename
   \<and> req_data (update_file_request env filename content) = Some content
   \<and> (remote env w (update_file_request env filename content) = (Inr ra, wa)
        \<and> status_code ra \<in> {200, 204}
        \<and> remote env wa (update_file_request env filename other) = (Inr rb, wb)
        \<and> status_code rb \<in> {200, 204} \<longrightarrow>
      update_file env filename content w =
        (JString (updated_msg filename), [Http (update_file_request env filename content)], wa)
      \<and> update_file env filename other wa =
        (JString (updated_msg filename), [Http (update_file_request env filename other)], wb))"
proof (intro conjI impI)
  show "(fst (update_file env filename content w) = JString (updated_msg filename))
      = (\<exists>r wa. remote env w (update_file_request env filename content) = (Inr r, wa)
                 \<and> (status_code r = 200 \<or> status_code r = 204))"
    by (rule update_file_success_iff)
  show "contains filename (updated_msg filename)"
    by (rule updated_msg_names_file)
  show "req_method (update_file_request env filename content) = PUT"
    "req_url (update_file_request env filename content) = vault_url env filename"
    "req_data (update_file_request env filename content) = Some content"
    by (simp_all add: update_file_request_def)
next
  assume h: "remote env w (update_file_request env filename content) = (Inr ra, wa)
        \<and> status_code ra \<in> {200, 204}
        \<and> remote env wa (update_file_request env filename other) = (Inr rb, wb)
        \<and> status_code rb \<in> {200, 204}"
  show "update_file env filename content w =
        (JString (updated_msg filename), [Http (update_file_request env filename content)], wa)"
    by (rule update_file_on_success[of env w filename content ra wa]) (use h in simp_all)
next
  assume h: "remote env w (update_file_request env filename content) = (Inr ra, wa)
        \<and> status_code ra \<in> {200, 204}
        \<and> remote env wa (update_file_request env filename other) = (Inr rb, wb)
        \<and> status_code rb \<in> {200, 204}"
  show "update_file env filename other wa =
        (JString (updated_msg filename), [Http (update_file_request env filename other)], wb)"
    by (rule update_file_on_success[of env wa filename other rb wb]) (use h in simp_all)
qed

theorem update_file_overwrites_witness:
  "update_file demo_env ''b.md'' ''# Hello'' 0 =
     (JString (''File '' @ sq @ ''b.md'' @ sq @ '' updated successfully.''),
      [Http (update_file_request demo_env ''b.md'' ''# Hello'')], 1)
   \<and> update_file demo_env ''b.md'' ''# Changed'' 1 =
     (JString (''File '' @ sq @ ''b.md'' @ sq @ '' updated successfully.''),
      [Http (update_file_request demo_env ''b.md'' ''# Changed'')], 2)
   \<and> req_data (update_file_request demo_env ''b.md'' ''# Changed'') = Some ''# Changed''"
  using update_file_overwrites[where env = demo_env and filename = "''b.md''" and w = 0 and wa = 1
      and wb = 2 and content = "''# Hello''" and other = "''# Changed''"
      and ra = "text_response 204 [] (update_file_request demo_env ''b.md'' ''# Hello'')"
      and rb = "text_response 204 [] (update_file_request demo_env ''b.md'' ''# Changed'')"]
  by (simp add: demo_simps demo_answer_def update_file_request_def vault_url_def text_response_def
      updated_msg_def)

subsection \<open>Reading a file in either representation\<close>

text \<open>
  C7.  With \<open>as_json\<close> true \<open>get_file\<close> asks for \<open>application/vnd.olrapi.note+json\<close> and, on
  status 200, returns the parsed body as the service sent it, metadata included; with
  \<open>as_json\<close> false it asks for \<open>text/markdown\<close> and returns the body text, a string, which
  has no fields.  In both cases it sends that one request.
\<close>

theorem get_file_representation:
  "(remote env w (get_file_request env filename True) = (Inr r, wa)
      \<and> status_code r = 200 \<and> json_body r = Inr j \<longrightarrow>
      fst (get_file env filename True w) = j
      \<and> requests_of (fst (snd (get_file env filename True w))) = [get_file_request env filename True])
   \<and> map_of (req_headers (get_file_request env filename True)) ''Accept''
       = Some ''application/vnd.olrapi.note+json''
   \<and> (remote env w (get_file_request env filename False) = (Inr r, wa) \<and> status_code r = 200 \<longrightarrow>
      fst (get_file env filename False w) = JString (body_text r)
      \<and> dict_keys (fst (get_file env filename False w)) = None
      \<and> requests_of (fst (snd (get_file env filename False w))) = [get_file_request env filename False])
   \<and> map_of (req_headers (get_file_request env filename False)) ''Accept'' = Some ''text/markdown''"
proof (intro conjI impI)
  show "map_of (req_headers (get_file_request env filename True)) ''Accept''
       = Some ''application/vnd.olrapi.note+json''"
    "map_of (req_headers (get_file_request env filename False)) ''Accept'' = Some ''text/markdown''"
    by (simp_all add: get_file_request_def accept_def bearer_def note_json_def)
next
  assume h: "remote env w (get_file_request env filename True) = (Inr r, wa)
      \<and> status_code r = 200 \<and> json_body r = Inr j"
  have g: "get_file env filename True w =
     (j, [LogDebug (''Retrieving file from URL: '' @ vault_url env filename),
          Http (get_file_request env filename True)], wa)"
    by (rule get_file_json[of env w filename r wa j]) (use h in simp_all)
  show "fst (get_file env filename True w) = j"
    "requests_of (fst (snd (get_file env filename True w))) = [get_file_request env filename True]"
    by (simp_all add: g)
next
  assume h: "remote env w (get_file_request env filename False) = (Inr r, wa) \<and> status_code r = 200"
  have g: "get_file env filename False w =
     (JString (body_text r),
      [LogDebug (''Retrieving file from URL: '' @ vault_url env filename),
       Http (get_file_request env filename False)], wa)"
    by (rule get_file_text[of env w filename r wa]) (use h in simp_all)
  show "fst (get_file env filename False w) = JString (body_text r)"
    "dict_keys (fst (get_file env filename False w)) = None"
    "requests_of (fst (snd (get_file env filename False w))) = [get_file_request env filename False]"
    by (simp_all add: g)
qed

theorem get_file_representation_witness:
  "fst (get_file demo_env ''b.md'' True 0) = demo_note
   \<and> dict_keys (fst (get_file demo_env ''b.md'' True 0)) = Some [''content'', ''frontmatter'', ''path'']
   \<and> fst (get_file demo_env ''b.md'' False 0) = JString demo_markdown
   \<and> dict_keys (fst (get_file demo_env ''b.md'' False 0)) = None"
  using get_file_representation[where env = demo_env and filename = "''b.md''" and w = 0 and wa = 1
      and j = demo_note
      and r = "json_response 200 demo_note (get_file_request demo_env ''b.md'' True)"]
    get_file_representation[where env = demo_env and filename = "''b.md''" and w = 0 and wa = 1
      and r = "text_response 200 demo_markdown (get_file_request demo_env ''b.md'' False)"]
  by (simp add: demo_simps demo_answer_def get_file_request_def vault_url_def text_response_def
      json_response_def accept_def bearer_def note_json_def)
     (simp add: demo_note_def)

subsection \<open>The bearer token\<close>

text \<open>
  C8.  \<open>get_status\<close>, \<open>get_active_note\<close>, \<open>get_file\<close> and \<open>update_file\<close> each send one
  request, to the note API, with the header \<open>Authorization: Bearer <token>\<close>; every request
  of the workflow, the search and each fetch, goes to the note API with that header.
  \<open>omni_search\<close> sends one request, to the search service, with no header at all.
\<close>

theorem note_api_requests_carry_token:
  "requests_of (fst (snd (get_status env w))) = [get_status_request env]
   \<and> note_api_call env (get_status_request env)
   \<and> requests_of (fst (snd (get_active_note env aj w))) = [get_active_note_request env aj]
   \<and> note_api_call env (get_active_note_request env aj)
   \<and> requests_of (fst (snd (get_file env filename aj w))) = [get_file_request env filename aj]
   \<and> note_api_call env (get_file_request env filename aj)
   \<and> requests_of (fst (snd (update_file env filename content w))) =
        [update_file_request env filename content]
   \<and> note_api_call env (update_file_request env filename content)
   \<and> list_all (note_api_call env)
        (requests_of (fst (snd (search_and_find_matching_file env query kw ct aj w))))
   \<and> requests_of (fst (snd (omni_search env q w))) = [omni_search_request env q]
   \<and> req_url (omni_search_request env q) = fmt_opt (BASE_URL_OMNI_SEARCH env) @ ''/search''
   \<and> req_headers (omni_search_request env q) = []"
proof -
  have "req_url (omni_search_request env q) = fmt_opt (BASE_URL_OMNI_SEARCH env) @ ''/search''"
    "req_headers (omni_search_request env q) = []"
    by (simp_all add: omni_search_request_def)
  then show ?thesis
    by (simp only: get_status_requests get_active_note_requests get_file_requests
        update_file_requests omni_search_requests search_and_find_note_api note_api_calls
        simp_thms)
qed

theorem note_api_requests_carry_token_witness:
  "map (\<lambda>req. map_of (req_headers req) ''Authorization'')
     (requests_of (fst (snd (search_and_find_matching_file demo_env ''LIST FROM #hello''
        ''Hello'' dql False 0)))) =
     [Some ''Bearer secret'', Some ''Bearer secret'', Some ''Bearer secret'']
   \<and> map req_headers (requests_of (fst (snd (omni_search demo_env ''#prompts'' 0)))) = [[]]"
  using note_api_requests_carry_token[where env = demo_env and w = 0 and query = "''LIST FROM #hello''"
      and kw = "''Hello''" and ct = dql and aj = False and q = "''#prompts''"]
  by (simp add: demo_unfold search_and_find_matching_file_def search_and_find_body_def visit_def
      omni_search_def omni_search_body_def omni_search_request_def Let_def)

subsection \<open>Candidates without a path\<close>

text \<open>
  C9, as the code has it.  A candidate that is a JSON object without a \<open>file\<close> member,
  or whose \<open>file\<close> member is an object without a usable \<open>path\<close>, is skipped: no request
  is sent for it, nothing is logged, and the scan goes on with the rest of the list as if
  the candidate were not there.
\<close>

theorem absent_path_is_skipped:
  assumes "path_absent item"
  shows "visit env kw aj item w = (Continue, [], w)
       \<and> scan env kw aj (item # rest) w = scan env kw aj rest w"
proof -
  from assms obtain p where "item_path item = Inr p" "\<not> truthy p"
    using path_absent_item_path by blast
  then have "visit env kw aj item w = (Continue, [], w)" by (rule visit_absent)
  then show ?thesis by (simp split: prod.splits)
qed

theorem absent_path_is_skipped_witness:
  "path_absent (JObject []) \<and> path_absent (JObject [(''file'', JObject [(''path'', JString [])])])
   \<and> scan demo_env ''Hello'' False [JObject [], demo_item ''b.md''] 0 =
       scan demo_env ''Hello'' False [demo_item ''b.md''] 0
   \<and> fst (search_and_find_matching_file demo_env ''LIST FROM #bare'' ''Hello'' dql False 0) =
       match_dict (JString ''b.md'') (JString demo_markdown)"
  using absent_path_is_skipped[of "JObject []" demo_env "''Hello''" False 0 "[demo_item ''b.md'']"]
  by (simp add: demo_unfold search_and_find_matching_file_def search_and_find_body_def visit_def
      match_dict_def)

text \<open>
  A candidate whose \<open>file\<close> member is \<open>null\<close> has no path either, but \<open>None.get\<close> raises:
  the workflow returns a failure without fetching \<open>b.md\<close>, the next candidate.
\<close>

theorem null_file_aborts_scan_counterexample:
  "search_and_find_matching_file demo_env ''LIST FROM #odd'' ''Hello'' dql False 0 =
     (error_dict (''search_and_find_matching_file '' @ ja_error @ '': ''
        @ sq @ ''NoneType'' @ sq @ '' object has no attribute '' @ sq @ ''get'' @ sq),
      Http (search_request demo_env ''LIST FROM #odd'' dql)
        # report (''search_and_find_matching_file '' @ ja_error @ '': ''
        @ sq @ ''NoneType'' @ sq @ '' object has no attribute '' @ sq @ ''get'' @ sq), 1)"
  by (simp add: demo_unfold search_and_find_matching_file_def search_and_find_body_def visit_def)

subsection \<open>The shapes of the result\<close>

text \<open>
  C10.  Whatever the arguments and whatever the remote services do, raising included,
  the workflow returns a dict of one of three shapes, and each shape has its cause.
  \<^item> The keys \<open>filename\<close> and \<open>content\<close>: returned when a candidate is fetched with the
    keyword in its content after the candidates before it were passed over, and only
    when some fetch was answered with status 200 and content that contains the keyword.
  \<^item> The single key \<open>message\<close>: with the "no results" text when the search result is
    empty, with the "no match" text when the scan ends without a match.  The two texts
    differ; the "no match" text contains the keyword, the "no results" text is a constant.
  \<^item> The single key \<open>error\<close>: returned when the search is answered with a status other
    than 200, and whenever anything in the body raises (the search request, the decoding
    of its body, the iteration over the result, the scan); the message then ends with
    \<open>str(e)\<close>.  It is returned in no other case.
  The function returns in every case: the handler of the source turns every exception of
  the body into the \<open>error\<close> dict, so nothing is raised to the caller.
\<close>

theorem result_shapes:
  "(dict_keys (fst (search_and_find_matching_file env q kw ct aj w)) = Some [''filename'', ''content'']
      \<or> dict_keys (fst (search_and_find_matching_file env q kw ct aj w)) = Some [''message'']
      \<or> dict_keys (fst (search_and_find_matching_file env q kw ct aj w)) = Some [''error''])
   \<and> (remote env w (search_request env q ct) = (Inr sr, wa) \<and> status_code sr = 200
        \<and> json_body sr = Inr (JArray (pre @ c # post)) \<and> all_passed_over env kw aj pre wa
        \<and> item_path c = Inr p \<and> truthy p
        \<and> remote env (world_after env aj pre wa) (file_request env p aj) = (Inr fr, wb)
        \<and> status_code fr = 200 \<and> content_of aj fr = Inr content
        \<and> contains kw (haystack env aj content) \<longrightarrow>
      fst (search_and_find_matching_file env q kw ct aj w) = match_dict p content)
   \<and> (dict_keys (fst (search_and_find_matching_file env q kw ct aj w)) = Some [''filename'', ''content'']
        \<longrightarrow>
      (\<exists>f r wc wd body. fst (search_and_find_matching_file env q kw ct aj w) = match_dict f body
         \<and> truthy f \<and> remote env wc (file_request env f aj) = (Inr r, wd) \<and> status_code r = 200
         \<and> content_of aj r = Inr body \<and> contains kw (haystack env aj body)))
   \<and> (remote env w (search_request env q ct) = (Inr sr, wa) \<and> status_code sr = 200
        \<and> json_body sr = Inr results \<and> \<not> truthy results \<longrightarrow>
      fst (search_and_find_matching_file env q kw ct aj w) = message_dict no_results_msg)
   \<and> (remote env w (search_request env q ct) = (Inr sr, wa) \<and> status_code sr = 200
        \<and> json_body sr = Inr results \<and> truthy results \<and> py_iter results = Inr items
        \<and> scan env kw aj items wa = (Continue, evs, wb) \<longrightarrow>
      fst (search_and_find_matching_file env q kw ct aj w) = message_dict (no_match_msg kw))
   \<and> (dict_keys (fst (search_and_find_matching_file env q kw ct aj w)) = Some [''message''] \<longrightarrow>
      fst (search_and_find_matching_file env q kw ct aj w) = message_dict no_results_msg
      \<or> fst (search_and_find_matching_file env q kw ct aj w) = message_dict (no_match_msg kw))
   \<and> contains kw (no_match_msg kw)
   \<and> no_results_msg \<noteq> no_match_msg kw
   \<and> (remote env w (search_request env q ct) = (Inr sr, wa) \<and> status_code sr \<noteq> 200 \<longrightarrow>
      fst (search_and_find_matching_file env q kw ct aj w) =
        error_dict (''Search error: status code '' @ str_int (status_code sr)))
   \<and> (remote env w (search_request env q ct) = (Inl e, wa) \<longrightarrow>
      fst (search_and_find_matching_file env q kw ct aj w) =
        error_dict (''search_and_find_matching_file '' @ ja_error @ '': '' @ exn_str e))
   \<and> (remote env w (search_request env q ct) = (Inr sr, wa) \<and> status_code sr = 200
        \<and> json_body sr = Inl e \<longrightarrow>
      fst (search_and_find_matching_file env q kw ct aj w) =
        error_dict (''search_and_find_matching_file '' @ ja_error @ '': '' @ exn_str e))
   \<and> (remote env w (search_request env q ct) = (Inr sr, wa) \<and> status_code sr = 200
        \<and> json_body sr = Inr results \<and> truthy results \<and> py_iter results = Inl e \<longrightarrow>
      fst (search_and_find_matching_file env q kw ct aj w) =
        error_dict (''search_and_find_matching_file '' @ ja_error @ '': '' @ exn_str e))
   \<and> (remote env w (search_request env q ct) = (Inr sr, wa) \<and> status_code sr = 200
        \<and> json_body sr = Inr results \<and> truthy results \<and> py_iter results = Inr items
        \<and> scan env kw aj items wa = (Raise e, evs, wb) \<longrightarrow>
      fst (search_and_find_matching_file env q kw ct aj w) =
        error_dict (''search_and_find_matching_file '' @ ja_error @ '': '' @ exn_str e))
   \<and> (search_and_find_body env q kw ct aj w = (Inl e, evs, wb) \<longrightarrow>
      search_and_find_matching_file env q kw ct aj w =
        (error_dict (''search_and_find_matching_file '' @ ja_error @ '': '' @ exn_str e),
         evs @ [LogError (''search_and_find_matching_file '' @ ja_error @ '': '' @ exn_str e),
                CtxError (''search_and_find_matching_file '' @ ja_error @ '': '' @ exn_str e)], wb))
   \<and> (dict_keys (fst (search_and_find_matching_file env q kw ct aj w)) = Some [''error''] \<longrightarrow>
      (\<exists>r wc. remote env w (search_request env q ct) = (Inr r, wc) \<and> status_code r \<noteq> 200)
      \<or> (\<exists>x xs wc. search_and_find_body env q kw ct aj w = (Inl x, xs, wc)))"
proof -
  let ?R = "search_and_find_matching_file env q kw ct aj w"
  let ?M = "''search_and_find_matching_file '' @ ja_error @ '': '' @ exn_str e"
  obtain a bevs bw where b: "search_and_find_body env q kw ct aj w = (a, bevs, bw)"
    by (cases "search_and_find_body env q kw ct aj w")
  have shape: "(\<exists>f c. fst ?R = match_dict f c) \<or> fst ?R = message_dict no_results_msg
       \<or> fst ?R = message_dict (no_match_msg kw) \<or> (\<exists>m. fst ?R = error_dict m)"
  proof (cases a)
    case (Inl x)
    then show ?thesis using b by (auto simp: search_and_find_matching_file_def)
  next
    case (Inr r)
    then show ?thesis using b body_shapes[of env q kw ct aj w r bevs bw]
      by (simp add: search_and_find_matching_file_def)
  qed
  have keys: "dict_keys (fst ?R) = Some [''filename'', ''content'']
      \<or> dict_keys (fst ?R) = Some [''message''] \<or> dict_keys (fst ?R) = Some [''error'']"
    using shape by auto
  have hit: "remote env w (search_request env q ct) = (Inr sr, wa) \<and> status_code sr = 200
        \<and> json_body sr = Inr (JArray (pre @ c # post)) \<and> all_passed_over env kw aj pre wa
        \<and> item_path c = Inr p \<and> truthy p
        \<and> remote env (world_after env aj pre wa) (file_request env p aj) = (Inr fr, wb)
        \<and> status_code fr = 200 \<and> content_of aj fr = Inr content
        \<and> contains kw (haystack env aj content) \<longrightarrow>
      fst ?R = match_dict p content"
  proof
    assume h: "remote env w (search_request env q ct) = (Inr sr, wa) \<and> status_code sr = 200
        \<and> json_body sr = Inr (JArray (pre @ c # post)) \<and> all_passed_over env kw aj pre wa
        \<and> item_path c = Inr p \<and> truthy p
        \<and> remote env (world_after env aj pre wa) (file_request env p aj) = (Inr fr, wb)
        \<and> status_code fr = 200 \<and> content_of aj fr = Inr content
        \<and> contains kw (haystack env aj content)"
    have "\<exists>xs. ?R = (match_dict p content,
              Http (search_request env q ct) # xs @ [Http (file_request env p aj)], wb)
         \<and> requests_of xs = map (\<lambda>p. file_request env p aj) (paths_of pre)"
      by (rule hit_after_passed_over[where sr = sr and wa = wa and post = post and c = c and fr = fr])
         (use h in simp_all)
    then show "fst ?R = match_dict p content" by auto
  qed
  have match_cause: "dict_keys (fst ?R) = Some [''filename'', ''content''] \<longrightarrow>
      (\<exists>f r wc wd body. fst ?R = match_dict f body
         \<and> truthy f \<and> remote env wc (file_request env f aj) = (Inr r, wd) \<and> status_code r = 200
         \<and> content_of aj r = Inr body \<and> contains kw (haystack env aj body))"
  proof
    assume k: "dict_keys (fst ?R) = Some [''filename'', ''content'']"
    show "\<exists>f r wc wd body. fst ?R = match_dict f body
         \<and> truthy f \<and> remote env wc (file_request env f aj) = (Inr r, wd) \<and> status_code r = 200
         \<and> content_of aj r = Inr body \<and> contains kw (haystack env aj body)"
    proof (cases a)
      case (Inl x)
      then show ?thesis using b k by (simp add: search_and_find_matching_file_def)
    next
      case (Inr r)
      then have res: "fst ?R = r" using b by (simp add: search_and_find_matching_file_def)
      have "dict_keys r = Some [''filename'', ''content'']" using k res by simp
      from body_match_cause[OF b[unfolded Inr] this]
      obtain f x wc body where "r = match_dict f body" "truthy f"
        "remote env wc (file_request env f aj) = (Inr x, bw)" "status_code x = 200"
        "content_of aj x = Inr body" "contains kw (haystack env aj body)"
        by blast
      then show ?thesis unfolding res by blast
    qed
  qed
  have empty: "remote env w (search_request env q ct) = (Inr sr, wa) \<and> status_code sr = 200
        \<and> json_body sr = Inr results \<and> \<not> truthy results \<longrightarrow>
      fst ?R = message_dict no_results_msg"
    using search_empty[of env w q ct sr wa results kw aj]
    by (auto simp: search_and_find_matching_file_def)
  have nomatch: "remote env w (search_request env q ct) = (Inr sr, wa) \<and> status_code sr = 200
        \<and> json_body sr = Inr results \<and> truthy results \<and> py_iter results = Inr items
        \<and> scan env kw aj items wa = (Continue, evs, wb) \<longrightarrow>
      fst ?R = message_dict (no_match_msg kw)"
    using search_items[of env w q ct sr wa results items kw aj]
    by (auto simp: search_and_find_matching_file_def)
  have msgs: "dict_keys (fst ?R) = Some [''message''] \<longrightarrow>
      fst ?R = message_dict no_results_msg \<or> fst ?R = message_dict (no_match_msg kw)"
    using shape by auto
  have status: "remote env w (search_request env q ct) = (Inr sr, wa) \<and> status_code sr \<noteq> 200 \<longrightarrow>
      fst ?R = error_dict (''Search error: status code '' @ str_int (status_code sr))"
    using search_and_find_search_status[of env w q ct sr wa kw aj] by auto
  have raise1: "remote env w (search_request env q ct) = (Inl e, wa) \<longrightarrow>
      fst ?R = error_dict ?M"
    using search_and_find_search_raises[of env w q ct e wa kw aj] by auto
  have raise2: "remote env w (search_request env q ct) = (Inr sr, wa) \<and> status_code sr = 200
        \<and> json_body sr = Inl e \<longrightarrow> fst ?R = error_dict ?M"
    using search_decode_raises[of env w q ct sr wa e kw aj]
    by (auto simp: search_and_find_matching_file_def)
  have raise3: "remote env w (search_request env q ct) = (Inr sr, wa) \<and> status_code sr = 200
        \<and> json_body sr = Inr results \<and> truthy results \<and> py_iter results = Inl e \<longrightarrow>
      fst ?R = error_dict ?M"
    using search_iter_raises[of env w q ct sr wa results e kw aj]
    by (auto simp: search_and_find_matching_file_def)
  have raise4: "remote env w (search_request env q ct) = (Inr sr, wa) \<and> status_code sr = 200
        \<and> json_body sr = Inr results \<and> truthy results \<and> py_iter results = Inr items
        \<and> scan env kw aj items wa = (Raise e, evs, wb) \<longrightarrow>
      fst ?R = error_dict ?M"
    using search_items[of env w q ct sr wa results items kw aj]
    by (auto simp: search_and_find_matching_file_def)
  have raise5: "search_and_find_body env q kw ct aj w = (Inl e, evs, wb) \<longrightarrow>
      ?R = (error_dict ?M,
         evs @ [LogError ?M, CtxError ?M], wb)"
    using body_raise_gives_error[of env q kw ct aj w e evs wb] by (auto simp: report_def)
  have error_cause: "dict_keys (fst ?R) = Some [''error''] \<longrightarrow>
      (\<exists>r wc. remote env w (search_request env q ct) = (Inr r, wc) \<and> status_code r \<noteq> 200)
      \<or> (\<exists>x xs wc. search_and_find_body env q kw ct aj w = (Inl x, xs, wc))"
  proof
    assume k: "dict_keys (fst ?R) = Some [''error'']"
    show "(\<exists>r wc. remote env w (search_request env q ct) = (Inr r, wc) \<and> status_code r \<noteq> 200)
      \<or> (\<exists>x xs wc. search_and_find_body env q kw ct aj w = (Inl x, xs, wc))"
    proof (cases a)
      case (Inl x)
      then show ?thesis using b by blast
    next
      case (Inr r)
      then have res: "fst ?R = r" using b by (simp add: search_and_find_matching_file_def)
      have "dict_keys r = Some [''error'']" using k res by simp
      from body_error_cause[OF b[unfolded Inr] this] show ?thesis by blast
    qed
  qed
  show ?thesis
    by (intro conjI keys hit match_cause empty nomatch msgs no_match_contains
        no_results_neq_no_match status raise1 raise2 raise3 raise4 raise5 error_cause)
qed

text \<open>The three shapes on the vault: a match, the two messages, and the failures by
  status, by a search that raises and by a fetch that raises.\<close>

theorem result_shapes_witness:
  "fst (search_and_find_matching_file demo_env ''LIST FROM #hello'' ''Hello'' dql False 0) =
     match_dict (JString ''b.md'') (JString demo_markdown)
   \<and> fst (search_and_find_matching_file demo_env ''LIST FROM #nothing'' ''Hello'' dql False 0) =
     message_dict no_results_msg
   \<and> fst (search_and_find_matching_file demo_env ''LIST FROM #hello'' ''zebra'' dql False 0) =
     message_dict (no_match_msg ''zebra'')
   \<and> fst (search_and_find_matching_file down_env ''LIST FROM #hello'' ''Hello'' dql False 0) =
     error_dict ''Search error: status code 503''
   \<and> fst (search_and_find_matching_file offline_env ''LIST FROM #hello'' ''Hello'' dql False 0) =
     error_dict (''search_and_find_matching_file '' @ ja_error @ '': All connection attempts failed'')
   \<and> fst (search_and_find_matching_file demo_env ''LIST FROM #down'' ''Hello'' dql False 0) =
     error_dict (''search_and_find_matching_file '' @ ja_error @ '': timed out'')"
  using result_shapes[where env = demo_env and w = 0 and wa = 1 and wb = 3
      and q = "''LIST FROM #hello''" and ct = dql and kw = "''Hello''" and aj = False
      and sr = "json_response 200 (demo_search (Some ''LIST FROM #hello''))
                  (search_request demo_env ''LIST FROM #hello'' dql)"
      and pre = "[demo_item ''a.md'']" and c = "demo_item ''b.md''" and post = "[]"
      and p = "JString ''b.md''" and content = "JString demo_markdown"
      and fr = "text_response 200 demo_markdown (file_request demo_env (JString ''b.md'') False)"]
    result_shapes[where env = demo_env and w = 0 and wa = 1
      and q = "''LIST FROM #nothing''" and ct = dql and kw = "''Hello''" and aj = False
      and results = "JArray []"
      and sr = "json_response 200 (JArray []) (search_request demo_env ''LIST FROM #nothing'' dql)"]
    result_shapes[where env = demo_env and w = 0 and wa = 1 and wb = 3
      and q = "''LIST FROM #hello''" and ct = dql and kw = "''zebra''" and aj = False
      and results = "JArray [demo_item ''a.md'', demo_item ''b.md'']"
      and items = "[demo_item ''a.md'', demo_item ''b.md'']"
      and evs = "[Http (file_request demo_env (JString ''a.md'') False),
                  LogWarning (ja_fetch_failed @ '': a.md''),
                  Http (file_request demo_env (JString ''b.md'') False)]"
      and sr = "json_response 200 (demo_search (Some ''LIST FROM #hello''))
                  (search_request demo_env ''LIST FROM #hello'' dql)"]
    result_shapes[where env = down_env and w = 0 and wa = 1
      and q = "''LIST FROM #hello''" and ct = dql and kw = "''Hello''" and aj = False
      and sr = "text_response 503 ''Service Unavailable'' (search_request down_env ''LIST FROM #hello'' dql)"]
    result_shapes[where env = offline_env and w = 0 and wa = 1
      and q = "''LIST FROM #hello''" and ct = dql and kw = "''Hello''" and aj = False
      and e = "HTTPError ''All connection attempts failed''"]
    result_shapes[where env = demo_env and w = 0 and wa = 1 and wb = 2
      and q = "''LIST FROM #down''" and ct = dql and kw = "''Hello''" and aj = False
      and results = "JArray [demo_item ''down.md'', demo_item ''b.md'']"
      and items = "[demo_item ''down.md'', demo_item ''b.md'']"
      and e = "HTTPError ''timed out''"
      and evs = "[Http (file_request demo_env (JString ''down.md'') False)]"
      and sr = "json_response 200 (demo_search (Some ''LIST FROM #down''))
                  (search_request demo_env ''LIST FROM #down'' dql)"]
  by (simp add: demo_unfold passed_over_def next_world_def visit_def)

end
